theory Spec2Isabelle
  imports Main
begin

section \<open>Python values, errors and library functions\<close>

text \<open>
  The module \<^verbatim>\<open>sagemaker/processing.py\<close> builds request dictionaries for processing
  jobs. Its descriptor objects are mutated in place, so they live in an explicit heap;
  the exceptions the module raises are values of \<open>error\<close>. Failures of the external
  collaborators (session, uploader) propagate unchanged in the source and are outside
  this model: the collaborators are functions that return.
\<close>

datatype error = TypeError | ValueError | AttributeError

text \<open>The values that end up in a request dictionary. A dictionary keeps insertion order.\<close>

datatype pyval =
    PyNone
  | PyStr string
  | PyInt int
  | PyList "pyval list"
  | PyDict "(string \<times> pyval) list"

definition py_opt_str :: "string option \<Rightarrow> pyval" where
  "py_opt_str x = (case x of None \<Rightarrow> PyNone | Some s \<Rightarrow> PyStr s)"

definition py_str_list :: "string list \<Rightarrow> pyval" where
  "py_str_list xs = PyList (map PyStr xs)"

text \<open>\<^verbatim>\<open>d[k] = v\<close>: replace the value of an existing key, or add the key at the end.\<close>

fun dict_set :: "string \<Rightarrow> pyval \<Rightarrow> (string \<times> pyval) list \<Rightarrow> (string \<times> pyval) list" where
  "dict_set k v [] = [(k, v)]"
| "dict_set k v (p # ps) = (if fst p = k then (k, v) # ps else p # dict_set k v ps)"

definition dict_get :: "(string \<times> pyval) list \<Rightarrow> string \<Rightarrow> pyval option" where
  "dict_get d k = map_of d k"

text \<open>\<^verbatim>\<open>"{}".format(count)\<close> for a non-negative integer: its decimal digits.\<close>

fun str_nat :: "nat \<Rightarrow> string" where
  "str_nat n =
     (if n < 10 then [''0123456789'' ! n]
      else str_nat (n div 10) @ [''0123456789'' ! (n mod 10)])"

declare str_nat.simps [simp del]

text \<open>
  \<^verbatim>\<open>os.path.join\<close> and \<^verbatim>\<open>os.path.basename\<close> on a POSIX system
  (\<^verbatim>\<open>posixpath\<close>): a component that starts with the separator discards what came
  before it; otherwise it is appended, after a separator unless the path so far is empty
  or already ends with one.
\<close>

definition startswith_sep :: "string \<Rightarrow> bool" where
  "startswith_sep b = (case b of [] \<Rightarrow> False | c # _ \<Rightarrow> c = CHR ''/'')"

definition endswith_sep :: "string \<Rightarrow> bool" where
  "endswith_sep p = (p \<noteq> [] \<and> last p = CHR ''/'')"

definition join_step :: "string \<Rightarrow> string \<Rightarrow> string" where
  "join_step path b =
     (if startswith_sep b then b
      else if path = [] \<or> endswith_sep path then path @ b
      else path @ ''/'' @ b)"

definition os_path_join :: "string \<Rightarrow> string list \<Rightarrow> string" where
  "os_path_join a p = foldl join_step a p"

definition os_path_basename :: "string \<Rightarrow> string" where
  "os_path_basename p = rev (takeWhile (\<lambda>c. c \<noteq> CHR ''/'') (rev p))"

section \<open>Descriptors\<close>

text \<open>
  \<^verbatim>\<open>ProcessingInput\<close> and \<^verbatim>\<open>ProcessingOutput\<close>. The attributes the source compares
  with \<^verbatim>\<open>None\<close> are optional strings.
\<close>

record ProcessingInput =
  source :: string
  destination :: string
  input_name :: "string option"
  s3_data_type :: string
  s3_input_mode :: string
  s3_download_mode :: string
  s3_data_distribution_type :: string
  s3_compression_type :: "string option"

record ProcessingOutput =
  source :: string
  destination :: string
  output_name :: "string option"
  kms_key_id :: "string option"
  s3_upload_mode :: string

text \<open>\<^verbatim>\<open>ProcessingInput.__init__\<close> with the keyword parameters at their defaults.\<close>

definition ProcessingInput_init :: "string \<Rightarrow> string \<Rightarrow> string option \<Rightarrow> ProcessingInput" where
  "ProcessingInput_init src dst name =
     \<lparr> ProcessingInput.source = src,
       ProcessingInput.destination = dst,
       input_name = name,
       s3_data_type = ''ManifestFile'',
       s3_input_mode = ''File'',
       s3_download_mode = ''Continuous'',
       s3_data_distribution_type = ''FullyReplicated'',
       s3_compression_type = Some ''None'' \<rparr>"

text \<open>\<^verbatim>\<open>ProcessingOutput.__init__\<close> with the keyword parameters at their defaults.\<close>

definition ProcessingOutput_init :: "string \<Rightarrow> string \<Rightarrow> string option \<Rightarrow> ProcessingOutput" where
  "ProcessingOutput_init src dst name =
     \<lparr> ProcessingOutput.source = src,
       ProcessingOutput.destination = dst,
       output_name = name,
       kms_key_id = None,
       s3_upload_mode = ''Continuous'' \<rparr>"

text \<open>
  \<^verbatim>\<open>ProcessingInput.to_request_dict\<close>. The compression type is stored in the nested
  \<^verbatim>\<open>S3Input\<close> dictionary, after the check of the input mode.
\<close>

definition S3Input_dict :: "ProcessingInput \<Rightarrow> (string \<times> pyval) list" where
  "S3Input_dict self =
     [(''S3Uri'', PyStr (ProcessingInput.source self)),
      (''LocalPath'', PyStr (ProcessingInput.destination self)),
      (''S3DataType'', PyStr (s3_data_type self)),
      (''S3InputMode'', PyStr (s3_input_mode self)),
      (''S3DownloadMode'', PyStr (s3_download_mode self)),
      (''S3DataDistributionType'', PyStr (s3_data_distribution_type self))]"

definition ProcessingInput_to_request_dict :: "ProcessingInput \<Rightarrow> error + pyval" where
  "ProcessingInput_to_request_dict self =
     (if s3_compression_type self = Some ''Gzip'' \<and> s3_input_mode self \<noteq> ''Pipe''
      then Inl ValueError
      else
        (case s3_compression_type self of
           None \<Rightarrow>
             Inr (PyDict [(''InputName'', py_opt_str (input_name self)),
                          (''S3Input'', PyDict (S3Input_dict self))])
         | Some c \<Rightarrow>
             Inr (PyDict [(''InputName'', py_opt_str (input_name self)),
                          (''S3Input'',
                             PyDict (dict_set ''S3CompressionType'' (PyStr c)
                                       (S3Input_dict self)))])))"

definition S3Output_dict :: "ProcessingOutput \<Rightarrow> (string \<times> pyval) list" where
  "S3Output_dict self =
     [(''S3Uri'', PyStr (ProcessingOutput.destination self)),
      (''LocalPath'', PyStr (ProcessingOutput.source self)),
      (''S3UploadMode'', PyStr (s3_upload_mode self))]"

definition ProcessingOutput_to_request_dict :: "ProcessingOutput \<Rightarrow> pyval" where
  "ProcessingOutput_to_request_dict self =
     (case kms_key_id self of
        None \<Rightarrow>
          PyDict [(''OutputName'', py_opt_str (output_name self)),
                  (''S3Output'', PyDict (S3Output_dict self))]
      | Some k \<Rightarrow>
          PyDict [(''OutputName'', py_opt_str (output_name self)),
                  (''S3Output'',
                     PyDict (dict_set ''KmsKeyId'' (PyStr k) (S3Output_dict self)))])"

section \<open>Heap, collaborators and processor state\<close>

text \<open>
  Lists hold references. An object is a \<^verbatim>\<open>ProcessingInput\<close>, a
  \<^verbatim>\<open>ProcessingOutput\<close>, or anything else (a string, say), for which both
  \<^verbatim>\<open>isinstance\<close> tests of the module fail.
\<close>

type_synonym addr = nat

datatype obj = PInput ProcessingInput | POutput ProcessingOutput | PyOther

text \<open>
  What the module calls and does not define: the session's default bucket,
  \<^verbatim>\<open>S3Uploader.upload\<close> (local path and desired URI to the URI it reports),
  the scheme that \<^verbatim>\<open>urlparse\<close> finds, the file system behind \<^verbatim>\<open>os.path.isdir\<close>
  and \<^verbatim>\<open>os.path.isfile\<close>, and the two name helpers of \<^verbatim>\<open>sagemaker.utils\<close>.
\<close>

datatype node = File | Dir

record externals =
  default_bucket :: string
  upload :: "string \<Rightarrow> string \<Rightarrow> string"
  urlparse_scheme :: "string \<Rightarrow> string"
  stat :: "string \<Rightarrow> node option"
  base_name_from_image :: "string \<Rightarrow> string"
  name_from_base :: "string \<Rightarrow> string"

definition os_path_isdir :: "externals \<Rightarrow> string \<Rightarrow> bool" where
  "os_path_isdir X p = (stat X p = Some Dir)"

definition os_path_isfile :: "externals \<Rightarrow> string \<Rightarrow> bool" where
  "os_path_isfile X p = (stat X p = Some File)"

text \<open>The calls that reach the uploader and the session, in the order they are made.\<close>

datatype session_call =
    Upload string string
  | Process pyval
  | LogsForProcessingJob "string option"
  | WaitForProcessingJob "string option"

record ProcessingJob =
  inputs :: "addr list"
  outputs :: "addr list"
  job_name :: "string option"

text \<open>
  The attributes of a \<^verbatim>\<open>Processor\<close>. \<open>network_config\<close> holds the request dictionary
  of the \<^verbatim>\<open>NetworkConfig\<close> object, whose class is defined elsewhere.
\<close>

record Processor =
  role :: string
  image_uri :: string
  instance_count :: int
  instance_type :: string
  entrypoint :: "string list option"
  volume_size_in_gb :: int
  volume_kms_key :: "string option"
  max_runtime_in_seconds :: int
  base_job_name :: "string option"
  env :: pyval
  tags :: pyval
  network_config :: "pyval option"
  jobs :: "ProcessingJob list"
  latest_job :: "ProcessingJob option"
  current_job_name :: "string option"
  arguments :: "string list option"

record state =
  heap :: "addr \<Rightarrow> obj"
  next_addr :: addr
  calls :: "session_call list"
  processor :: Processor

section \<open>Processor\<close>

text \<open>\<^verbatim>\<open>Processor._generate_current_job_name\<close>; an empty base name counts as absent.\<close>

definition generate_current_job_name :: "externals \<Rightarrow> Processor \<Rightarrow> string option \<Rightarrow> string" where
  "generate_current_job_name X self jname =
     (case jname of
        Some n \<Rightarrow> n
      | None \<Rightarrow>
          (let base_name =
             (case base_job_name self of
                Some b \<Rightarrow> if b \<noteq> [] then b else base_name_from_image X (image_uri self)
              | None \<Rightarrow> base_name_from_image X (image_uri self))
           in name_from_base X base_name))"

text \<open>
  The loop of \<^verbatim>\<open>Processor._normalize_inputs\<close>: \<open>count\<close> is the counter of
  \<^verbatim>\<open>enumerate(inputs, 1)\<close>, \<open>normalized\<close> the list built so far. The name is written
  to the object before the source is looked at (writing the name an object already has
  leaves it as it is). \<^verbatim>\<open>os.path.join\<close> raises
  \<^verbatim>\<open>TypeError\<close> when the job name is still \<^verbatim>\<open>None\<close>.
\<close>

fun normalize_inputs_loop ::
  "externals \<Rightarrow> nat \<Rightarrow> addr list \<Rightarrow> addr list \<Rightarrow> state \<Rightarrow> (error + addr list) \<times> state" where
  "normalize_inputs_loop X count [] normalized s = (Inr normalized, s)"
| "normalize_inputs_loop X count (a # rest) normalized s =
     (case heap s a of
        PInput file_input \<Rightarrow>
          (let name = (case input_name file_input of
                         None \<Rightarrow> ''input-'' @ str_nat count
                       | Some n \<Rightarrow> n);
               named = file_input\<lparr>input_name := Some name\<rparr>;
               s1 = s\<lparr>heap := (heap s)(a := PInput named)\<rparr>
           in if urlparse_scheme X (ProcessingInput.source named) \<noteq> ''s3'' then
                (case current_job_name (processor s1) of
                   None \<Rightarrow> (Inl TypeError, s1)
                 | Some job \<Rightarrow>
                     (let desired_s3_uri =
                            os_path_join ''s3://'' [default_bucket X, job, ''input'', name];
                          s3_uri = upload X (ProcessingInput.source named) desired_s3_uri;
                          s2 = s1\<lparr>calls := calls s1 @
                                       [Upload (ProcessingInput.source named) desired_s3_uri],
                                   heap := (heap s1)
                                       (a := PInput (named\<lparr>ProcessingInput.source := s3_uri\<rparr>))\<rparr>
                      in normalize_inputs_loop X (Suc count) rest (normalized @ [a]) s2))
              else normalize_inputs_loop X (Suc count) rest (normalized @ [a]) s1)
      | _ \<Rightarrow> (Inl TypeError, s))"

definition normalize_inputs ::
  "externals \<Rightarrow> addr list option \<Rightarrow> state \<Rightarrow> (error + addr list) \<times> state" where
  "normalize_inputs X ins s =
     (case ins of
        None \<Rightarrow> (Inr [], s)
      | Some xs \<Rightarrow> normalize_inputs_loop X 1 xs [] s)"

text \<open>
  The loop of \<^verbatim>\<open>Processor._normalize_outputs\<close>. The URI it derives has four
  components: bucket, job name and \<^verbatim>\<open>"output"\<close> after \<^verbatim>\<open>"s3://"\<close>.
\<close>

fun normalize_outputs_loop ::
  "externals \<Rightarrow> nat \<Rightarrow> addr list \<Rightarrow> addr list \<Rightarrow> state \<Rightarrow> (error + addr list) \<times> state" where
  "normalize_outputs_loop X count [] normalized s = (Inr normalized, s)"
| "normalize_outputs_loop X count (a # rest) normalized s =
     (case heap s a of
        POutput output \<Rightarrow>
          (let name = (case output_name output of
                         None \<Rightarrow> ''output-'' @ str_nat count
                       | Some n \<Rightarrow> n);
               named = output\<lparr>output_name := Some name\<rparr>;
               s1 = s\<lparr>heap := (heap s)(a := POutput named)\<rparr>
           in if urlparse_scheme X (ProcessingOutput.destination named) \<noteq> ''s3'' then
                (case current_job_name (processor s1) of
                   None \<Rightarrow> (Inl TypeError, s1)
                 | Some job \<Rightarrow>
                     (let s3_uri = os_path_join ''s3://'' [default_bucket X, job, ''output''];
                          s2 = s1\<lparr>heap := (heap s1)
                                       (a := POutput (named\<lparr>ProcessingOutput.destination := s3_uri\<rparr>))\<rparr>
                      in normalize_outputs_loop X (Suc count) rest (normalized @ [a]) s2))
              else normalize_outputs_loop X (Suc count) rest (normalized @ [a]) s1)
      | _ \<Rightarrow> (Inl TypeError, s))"

definition normalize_outputs ::
  "externals \<Rightarrow> addr list option \<Rightarrow> state \<Rightarrow> (error + addr list) \<times> state" where
  "normalize_outputs X outs s =
     (case outs of
        None \<Rightarrow> (Inr [], s)
      | Some xs \<Rightarrow> normalize_outputs_loop X 1 xs [] s)"

section \<open>ProcessingJob\<close>

text \<open>
  \<^verbatim>\<open>to_request_dict\<close> is looked up on whatever object the list holds; an object
  without the method raises \<^verbatim>\<open>AttributeError\<close>. A list comprehension stops at the
  first element that raises.
\<close>

definition obj_to_request_dict :: "obj \<Rightarrow> error + pyval" where
  "obj_to_request_dict ob =
     (case ob of
        PInput i \<Rightarrow> ProcessingInput_to_request_dict i
      | POutput ou \<Rightarrow> Inr (ProcessingOutput_to_request_dict ou)
      | PyOther \<Rightarrow> Inl AttributeError)"

fun request_dicts :: "(addr \<Rightarrow> obj) \<Rightarrow> addr list \<Rightarrow> error + pyval list" where
  "request_dicts h [] = Inr []"
| "request_dicts h (a # rest) =
     (case obj_to_request_dict (h a) of
        Inl e \<Rightarrow> Inl e
      | Inr d \<Rightarrow>
          (case request_dicts h rest of
             Inl e \<Rightarrow> Inl e
           | Inr ds \<Rightarrow> Inr (d # ds)))"

text \<open>
  \<^verbatim>\<open>ProcessingJob.start_new\<close>: the keyword arguments of
  \<^verbatim>\<open>sagemaker_session.process\<close>, in the order the source stores them, then the call.
  What it prints is not modelled.
\<close>

definition app_specification :: "Processor \<Rightarrow> (string \<times> pyval) list" where
  "app_specification p =
     (let app0 = [(''ImageUri'', PyStr (image_uri p))];
          app1 = (case arguments p of
                    None \<Rightarrow> app0
                  | Some a \<Rightarrow> dict_set ''ContainerArguments'' (py_str_list a) app0)
      in (case entrypoint p of
            None \<Rightarrow> app1
          | Some e \<Rightarrow> dict_set ''ContainerEntrypoint'' (py_str_list e) app1))"

definition process_request_args ::
  "Processor \<Rightarrow> pyval list \<Rightarrow> pyval list \<Rightarrow> (string \<times> pyval) list" where
  "process_request_args p in_dicts out_dicts =
     [(''inputs'', PyList in_dicts),
      (''outputs'', PyList out_dicts),
      (''job_name'', py_opt_str (current_job_name p)),
      (''resources'',
         PyDict [(''ClusterConfig'',
                    PyDict [(''InstanceType'', PyStr (instance_type p)),
                            (''InstanceCount'', PyInt (instance_count p)),
                            (''VolumeSizeInGB'', PyInt (volume_size_in_gb p))])]),
      (''stopping_condition'',
         PyDict [(''MaxRuntimeInSeconds'', PyInt (max_runtime_in_seconds p))]),
      (''app_specification'', PyDict (app_specification p)),
      (''environment'', env p),
      (''network_config'', (case network_config p of None \<Rightarrow> PyNone | Some d \<Rightarrow> d)),
      (''role_arn'', PyStr (role p)),
      (''tags'', tags p)]"

definition ProcessingJob_start_new ::
  "addr list \<Rightarrow> addr list \<Rightarrow> state \<Rightarrow> (error + ProcessingJob) \<times> state" where
  "ProcessingJob_start_new ins outs s =
     (case request_dicts (heap s) ins of
        Inl e \<Rightarrow> (Inl e, s)
      | Inr in_dicts \<Rightarrow>
          (case request_dicts (heap s) outs of
             Inl e \<Rightarrow> (Inl e, s)
           | Inr out_dicts \<Rightarrow>
               (Inr \<lparr> inputs = ins, outputs = outs,
                      job_name = current_job_name (processor s) \<rparr>,
                s\<lparr>calls := calls s @
                     [Process (PyDict (process_request_args (processor s) in_dicts out_dicts))]\<rparr>)))"

definition ProcessingJob_wait :: "bool \<Rightarrow> ProcessingJob \<Rightarrow> state \<Rightarrow> state" where
  "ProcessingJob_wait logs job s =
     (if logs then s\<lparr>calls := calls s @ [LogsForProcessingJob (job_name job)]\<rparr>
      else s\<lparr>calls := calls s @ [WaitForProcessingJob (job_name job)]\<rparr>)"

text \<open>\<^verbatim>\<open>Processor.run\<close>. The check of the two flags comes before everything else.\<close>

definition Processor_run ::
  "externals \<Rightarrow> addr list option \<Rightarrow> addr list option \<Rightarrow> string list option \<Rightarrow>
   bool \<Rightarrow> bool \<Rightarrow> string option \<Rightarrow> state \<Rightarrow> (error + unit) \<times> state" where
  "Processor_run X ins outs args wait logs jname s =
     (if logs \<and> \<not> wait then (Inl ValueError, s)
      else
        (let s1 = s\<lparr>processor := (processor s)
                      \<lparr>current_job_name :=
                         Some (generate_current_job_name X (processor s) jname)\<rparr>\<rparr>
         in case normalize_inputs X ins s1 of
              (Inl e, s2) \<Rightarrow> (Inl e, s2)
            | (Inr normalized_inputs, s2) \<Rightarrow>
                (case normalize_outputs X outs s2 of
                   (Inl e, s3) \<Rightarrow> (Inl e, s3)
                 | (Inr normalized_outputs, s3) \<Rightarrow>
                     (let s4 = s3\<lparr>processor := (processor s3)\<lparr>arguments := args\<rparr>\<rparr>
                      in case ProcessingJob_start_new normalized_inputs normalized_outputs s4 of
                           (Inl e, s5) \<Rightarrow> (Inl e, s5)
                         | (Inr job, s5) \<Rightarrow>
                             (let s6 = s5\<lparr>processor := (processor s5)
                                           \<lparr>latest_job := Some job,
                                            jobs := jobs (processor s5) @ [job]\<rparr>\<rparr>
                              in if wait then (Inr (), ProcessingJob_wait logs job s6)
                                 else (Inr (), s6))))))"

section \<open>ScriptProcessor\<close>

definition CODE_CONTAINER_BASE_PATH :: string where
  "CODE_CONTAINER_BASE_PATH = ''/input/''"

definition CODE_CONTAINER_INPUT_NAME :: string where
  "CODE_CONTAINER_INPUT_NAME = ''code''"

text \<open>\<^verbatim>\<open>ScriptProcessor._get_customer_script_name\<close>, test by test.\<close>

definition get_customer_script_name ::
  "externals \<Rightarrow> string \<Rightarrow> string option \<Rightarrow> error + string" where
  "get_customer_script_name X code script_name =
     (if os_path_isdir X code \<and> script_name = None then Inl ValueError
      else if (urlparse_scheme X code = ''s3'' \<or> os_path_isdir X code) \<and> script_name \<noteq> None
        then Inr (the script_name)
      else if urlparse_scheme X code = ''s3'' \<or> os_path_isfile X code
        then Inr (os_path_basename code)
      else Inl ValueError)"

text \<open>\<^verbatim>\<open>ScriptProcessor._upload_code\<close>; the join needs the job name to be a string.\<close>

definition upload_code :: "externals \<Rightarrow> string \<Rightarrow> state \<Rightarrow> (error + string) \<times> state" where
  "upload_code X code s =
     (case current_job_name (processor s) of
        None \<Rightarrow> (Inl TypeError, s)
      | Some job \<Rightarrow>
          (let desired_s3_uri =
                 os_path_join ''s3://''
                   [default_bucket X, job, ''input'', CODE_CONTAINER_INPUT_NAME]
           in (Inr (upload X code desired_s3_uri),
               s\<lparr>calls := calls s @ [Upload code desired_s3_uri]\<rparr>)))"

text \<open>
  \<^verbatim>\<open>ScriptProcessor._convert_code_and_add_to_inputs\<close>: the new descriptor is created
  first, at a fresh address; then \<^verbatim>\<open>inputs + [code_file_input]\<close> is evaluated, which
  raises \<^verbatim>\<open>TypeError\<close> when \<^verbatim>\<open>inputs\<close> is \<^verbatim>\<open>None\<close>.
\<close>

definition convert_code_and_add_to_inputs ::
  "addr list option \<Rightarrow> string \<Rightarrow> state \<Rightarrow> (error + addr list) \<times> state" where
  "convert_code_and_add_to_inputs ins s3_uri s =
     (let code_file_input =
            ProcessingInput_init s3_uri
              (os_path_join CODE_CONTAINER_BASE_PATH [CODE_CONTAINER_INPUT_NAME])
              (Some CODE_CONTAINER_INPUT_NAME);
          a = next_addr s;
          s1 = s\<lparr>heap := (heap s)(a := PInput code_file_input), next_addr := Suc a\<rparr>
      in case ins of
           None \<Rightarrow> (Inl TypeError, s1)
         | Some xs \<Rightarrow> (Inr (xs @ [a]), s1))"

text \<open>\<^verbatim>\<open>ScriptProcessor._set_entrypoint\<close>.\<close>

definition set_entrypoint :: "string list \<Rightarrow> string \<Rightarrow> state \<Rightarrow> state" where
  "set_entrypoint command customer_script_name s =
     (let customer_script_location =
            os_path_join CODE_CONTAINER_BASE_PATH
              [CODE_CONTAINER_INPUT_NAME, customer_script_name]
      in s\<lparr>processor := (processor s)
             \<lparr>entrypoint := Some (command @ [customer_script_location])\<rparr>\<rparr>)"

text \<open>\<^verbatim>\<open>ScriptProcessor.run\<close>.\<close>

definition ScriptProcessor_run ::
  "externals \<Rightarrow> string list \<Rightarrow> string \<Rightarrow> string option \<Rightarrow> addr list option \<Rightarrow>
   addr list option \<Rightarrow> string list option \<Rightarrow> bool \<Rightarrow> bool \<Rightarrow> string option \<Rightarrow>
   state \<Rightarrow> (error + unit) \<times> state" where
  "ScriptProcessor_run X command code script_name ins outs args wait logs jname s =
     (let s1 = s\<lparr>processor := (processor s)
                   \<lparr>current_job_name :=
                      Some (generate_current_job_name X (processor s) jname)\<rparr>\<rparr>
      in case get_customer_script_name X code script_name of
           Inl e \<Rightarrow> (Inl e, s1)
         | Inr customer_script_name \<Rightarrow>
             (case upload_code X code s1 of
                (Inl e, s2) \<Rightarrow> (Inl e, s2)
              | (Inr customer_code_s3_uri, s2) \<Rightarrow>
                  (case convert_code_and_add_to_inputs ins customer_code_s3_uri s2 of
                     (Inl e, s3) \<Rightarrow> (Inl e, s3)
                   | (Inr inputs_with_code, s3) \<Rightarrow>
                       Processor_run X (Some inputs_with_code) outs args wait logs jname
                         (set_entrypoint command customer_script_name s3))))"

section \<open>Notions used in the statements\<close>

text \<open>
  The two \<^verbatim>\<open>isinstance\<close> tests; the position of the first occurrence of an element
  (counted from 0); the name a descriptor has once the loop has passed it with counter
  \<open>n\<close>; and the frame of normalization: an input keeps every attribute except its name
  and source, an output every attribute except its name and destination, and any other
  object stays as it is.
\<close>

definition isinstance_ProcessingInput :: "obj \<Rightarrow> bool" where
  "isinstance_ProcessingInput ob = (case ob of PInput _ \<Rightarrow> True | _ \<Rightarrow> False)"

definition isinstance_ProcessingOutput :: "obj \<Rightarrow> bool" where
  "isinstance_ProcessingOutput ob = (case ob of POutput _ \<Rightarrow> True | _ \<Rightarrow> False)"

definition first_index :: "'a list \<Rightarrow> 'a \<Rightarrow> nat" where
  "first_index xs x = length (takeWhile (\<lambda>y. y \<noteq> x) xs)"

definition default_input_name :: "nat \<Rightarrow> string option \<Rightarrow> string" where
  "default_input_name n name =
     (case name of None \<Rightarrow> ''input-'' @ str_nat n | Some given \<Rightarrow> given)"

definition default_output_name :: "nat \<Rightarrow> string option \<Rightarrow> string" where
  "default_output_name n name =
     (case name of None \<Rightarrow> ''output-'' @ str_nat n | Some given \<Rightarrow> given)"

definition input_frame :: "obj \<Rightarrow> obj \<Rightarrow> bool" where
  "input_frame ob ob' =
     (case ob of
        PInput i \<Rightarrow>
          (case ob' of
             PInput i' \<Rightarrow>
               i' = i\<lparr>input_name := input_name i',
                      ProcessingInput.source := ProcessingInput.source i'\<rparr>
           | _ \<Rightarrow> False)
      | _ \<Rightarrow> ob' = ob)"

definition output_frame :: "obj \<Rightarrow> obj \<Rightarrow> bool" where
  "output_frame ob ob' =
     (case ob of
        POutput ou \<Rightarrow>
          (case ob' of
             POutput ou' \<Rightarrow>
               ou' = ou\<lparr>output_name := output_name ou',
                        ProcessingOutput.destination := ProcessingOutput.destination ou'\<rparr>
           | _ \<Rightarrow> False)
      | _ \<Rightarrow> ob' = ob)"

text \<open>
  A small concrete world for the examples: the uploader reports the URI it was asked
  for, \<open>urlparse_scheme\<close> agrees with \<^verbatim>\<open>urlparse\<close> on the strings used below, and the
  file system holds one file and one directory. The heap holds an input that is already
  remote (address 0), a local input (1) and an output with a name and a destination
  that is not remote (2).
\<close>

definition ex_externals :: externals where
  "ex_externals =
     \<lparr> default_bucket = ''bucket'',
       upload = (\<lambda>local_path desired_s3_uri. desired_s3_uri),
       urlparse_scheme = (\<lambda>u. if take 5 u = ''s3://'' then ''s3'' else ''''),
       stat = (\<lambda>p. if p = ''script.py'' then Some File
                    else if p = ''src'' then Some Dir else None),
       base_name_from_image = (\<lambda>i. i),
       name_from_base = (\<lambda>b. b @ ''-2019'') \<rparr>"

definition ex_processor :: Processor where
  "ex_processor =
     \<lparr> role = ''role'', image_uri = ''image'', instance_count = 1,
       instance_type = ''ml.m4.xlarge'', entrypoint = None, volume_size_in_gb = 30,
       volume_kms_key = None, max_runtime_in_seconds = 86400, base_job_name = None,
       env = PyNone, tags = PyNone, network_config = None, jobs = [], latest_job = None,
       current_job_name = Some ''job'', arguments = None \<rparr>"

definition ex_heap :: "addr \<Rightarrow> obj" where
  "ex_heap a =
     (if a = 0 then
        PInput (ProcessingInput_init ''s3://bucket/data'' ''/opt/ml/processing/input'' None)
      else if a = 1 then
        PInput (ProcessingInput_init ''data/train.csv'' ''/opt/ml/processing/train'' None)
      else if a = 2 then
        POutput (ProcessingOutput_init ''/opt/ml/processing/output'' ''results'' (Some ''train''))
      else PyOther)"

definition ex_state :: state where
  "ex_state = \<lparr> heap = ex_heap, next_addr = 3, calls = [], processor = ex_processor \<rparr>"

text \<open>
  The same world with two more outputs, both without a name: one with a destination that
  is not remote (address 3) and one that is already remote (4).
\<close>

definition ex_heap_outputs :: "addr \<Rightarrow> obj" where
  "ex_heap_outputs a =
     (if a = 3 then
        POutput (ProcessingOutput_init ''/opt/ml/processing/model'' ''models'' None)
      else if a = 4 then
        POutput (ProcessingOutput_init ''/opt/ml/processing/report''
                   ''s3://bucket/reports'' None)
      else ex_heap a)"

definition ex_state_outputs :: state where
  "ex_state_outputs =
     \<lparr> heap = ex_heap_outputs, next_addr = 5, calls = [], processor = ex_processor \<rparr>"

section \<open>The normalization loops, step by step\<close>

text \<open>
  One iteration on a \<^verbatim>\<open>ProcessingInput\<close>: the object gets its name and possibly a new
  source; the loop stops there only when a local source meets a missing job name.
\<close>

lemma normalize_inputs_loop_step:
  assumes "heap s x = PInput fi"
  obtains src s1 where
    "heap s1 = (heap s)(x := PInput (fi\<lparr>input_name := Some (default_input_name c (input_name fi)),
                                         ProcessingInput.source := src\<rparr>))"
    "processor s1 = processor s" "next_addr s1 = next_addr s"
    "if urlparse_scheme X (ProcessingInput.source fi) \<noteq> ''s3'' \<and> current_job_name (processor s) = None
     then \<forall>xs acc. normalize_inputs_loop X c (x # xs) acc s = (Inl TypeError, s1)
     else \<forall>xs acc. normalize_inputs_loop X c (x # xs) acc s =
            normalize_inputs_loop X (Suc c) xs (acc @ [x]) s1"
proof (cases "urlparse_scheme X (ProcessingInput.source fi) \<noteq> ''s3''")
  case False
  let ?s1 = "s\<lparr>heap := (heap s)(x := PInput (fi\<lparr>input_name := Some (default_input_name c (input_name fi))\<rparr>))\<rparr>"
  show ?thesis
  proof (rule that [of ?s1 "ProcessingInput.source fi"])
  qed (use assms False in \<open>simp_all add: default_input_name_def Let_def\<close>)
next
  case nons3: True
  show ?thesis
  proof (cases "current_job_name (processor s)")
    case None
    let ?s1 = "s\<lparr>heap := (heap s)(x := PInput (fi\<lparr>input_name := Some (default_input_name c (input_name fi))\<rparr>))\<rparr>"
    show ?thesis
    proof (rule that [of ?s1 "ProcessingInput.source fi"])
    qed (use assms nons3 None in \<open>simp_all add: default_input_name_def Let_def\<close>)
  next
    case (Some job)
    let ?name = "default_input_name c (input_name fi)"
    let ?desired = "os_path_join ''s3://'' [default_bucket X, job, ''input'', ?name]"
    let ?src = "upload X (ProcessingInput.source fi) ?desired"
    let ?s2 = "s\<lparr>calls := calls s @ [Upload (ProcessingInput.source fi) ?desired],
                 heap := (heap s)(x := PInput (fi\<lparr>input_name := Some ?name,
                                                  ProcessingInput.source := ?src\<rparr>))\<rparr>"
    show ?thesis
    proof (rule that [of ?s2 ?src])
    qed (use assms nons3 Some in \<open>simp_all add: default_input_name_def Let_def\<close>)
  qed
qed

lemma input_frame_refl: "input_frame ob ob"
  by (simp add: input_frame_def split: obj.splits)

lemma input_frame_trans:
  assumes "input_frame a b" and "input_frame b c"
  shows "input_frame a c"
proof (cases a)
  case (PInput i)
  with assms(1) obtain j where b: "b = PInput j"
    and j: "j = i\<lparr>input_name := input_name j, ProcessingInput.source := ProcessingInput.source j\<rparr>"
    by (auto simp: input_frame_def split: obj.splits)
  from assms(2) b obtain k where c: "c = PInput k"
    and k: "k = j\<lparr>input_name := input_name k, ProcessingInput.source := ProcessingInput.source k\<rparr>"
    by (auto simp: input_frame_def split: obj.splits)
  have "k = i\<lparr>input_name := input_name k, ProcessingInput.source := ProcessingInput.source k\<rparr>"
    by (subst k, subst j) simp
  with PInput c show ?thesis by (simp add: input_frame_def)
next
  case (POutput x)
  with assms show ?thesis by (simp add: input_frame_def)
next
  case PyOther
  with assms show ?thesis by (simp add: input_frame_def)
qed

lemma input_frame_heap_upd:
  assumes "input_frame (h x) ob" and "\<forall>a. input_frame ((h(x := ob)) a) (hh a)"
  shows "input_frame (h a) (hh a)"
proof (cases "a = x")
  case True
  from assms(2) have "input_frame ((h(x := ob)) x) (hh x)" ..
  then have "input_frame ob (hh x)" by simp
  with assms(1) True show ?thesis by (auto intro: input_frame_trans)
next
  case False
  from assms(2) have "input_frame ((h(x := ob)) a) (hh a)" ..
  with False show ?thesis by simp
qed

lemma normalize_inputs_loop_not_input:
  "\<not> isinstance_ProcessingInput (heap s x) \<Longrightarrow>
   normalize_inputs_loop X c (x # xs) acc s = (Inl TypeError, s)"
  by (cases "heap s x") (simp_all add: isinstance_ProcessingInput_def)

lemma normalize_inputs_loop_frame:
  "normalize_inputs_loop X c xs acc s = (r, s') \<Longrightarrow>
   (\<forall>a. input_frame (heap s a) (heap s' a)) \<and> processor s' = processor s \<and>
   next_addr s' = next_addr s \<and> (\<forall>ys. r = Inr ys \<longrightarrow> ys = acc @ xs)"
proof (induction xs arbitrary: c acc s)
  case Nil
  then show ?case by (auto simp: input_frame_refl)
next
  case (Cons x xs)
  show ?case
  proof (cases "heap s x")
    case (PInput fi)
    obtain src s1 where
      h1: "heap s1 = (heap s)(x := PInput (fi\<lparr>input_name := Some (default_input_name c (input_name fi)),
                                         ProcessingInput.source := src\<rparr>))"
      and p1: "processor s1 = processor s" "next_addr s1 = next_addr s"
      and run: "if urlparse_scheme X (ProcessingInput.source fi) \<noteq> ''s3'' \<and> current_job_name (processor s) = None
         then \<forall>xs acc. normalize_inputs_loop X c (x # xs) acc s = (Inl TypeError, s1)
         else \<forall>xs acc. normalize_inputs_loop X c (x # xs) acc s =
            normalize_inputs_loop X (Suc c) xs (acc @ [x]) s1"
      by (rule normalize_inputs_loop_step [OF PInput])
    have f1: "input_frame (heap s x) (PInput (fi\<lparr>input_name := Some (default_input_name c (input_name fi)),
                                         ProcessingInput.source := src\<rparr>))"
      by (simp add: PInput input_frame_def)
    show ?thesis
    proof (cases "urlparse_scheme X (ProcessingInput.source fi) \<noteq> ''s3'' \<and> current_job_name (processor s) = None")
      case True
      with run Cons.prems have "r = Inl TypeError" "s' = s1" by simp_all
      with f1 h1 p1 show ?thesis by (auto simp: input_frame_refl)
    next
      case False
      with run Cons.prems have "normalize_inputs_loop X (Suc c) xs (acc @ [x]) s1 = (r, s')"
        by simp
      from Cons.IH [OF this] h1 p1
      have ih: "\<forall>a. input_frame (((heap s)(x := PInput (fi\<lparr>input_name := Some (default_input_name c (input_name fi)),
                                         ProcessingInput.source := src\<rparr>))) a) (heap s' a)"
        and rest: "processor s' = processor s" "next_addr s' = next_addr s"
          "\<forall>ys. r = Inr ys \<longrightarrow> ys = acc @ x # xs"
        by simp_all
      from input_frame_heap_upd [OF f1 ih] rest show ?thesis by simp
    qed
  next
    case (POutput x2)
    with Cons.prems show ?thesis by (auto simp: input_frame_refl)
  next
    case PyOther
    with Cons.prems show ?thesis by (auto simp: input_frame_refl)
  qed
qed

lemma normalize_inputs_loop_keeps_name:
  "normalize_inputs_loop X c xs acc s = (r, s') \<Longrightarrow> heap s a = PInput fi \<Longrightarrow>
   input_name fi = Some n \<Longrightarrow> \<exists>fi'. heap s' a = PInput fi' \<and> input_name fi' = Some n"
proof (induction xs arbitrary: c acc s fi)
  case Nil
  then show ?case by simp
next
  case (Cons x xs)
  show ?case
  proof (cases "heap s x")
    case (PInput fx)
    obtain src s1 where
      h1: "heap s1 = (heap s)(x := PInput (fx\<lparr>input_name := Some (default_input_name c (input_name fx)),
                                         ProcessingInput.source := src\<rparr>))"
      and run: "if urlparse_scheme X (ProcessingInput.source fx) \<noteq> ''s3'' \<and> current_job_name (processor s) = None
         then \<forall>xs acc. normalize_inputs_loop X c (x # xs) acc s = (Inl TypeError, s1)
         else \<forall>xs acc. normalize_inputs_loop X c (x # xs) acc s =
            normalize_inputs_loop X (Suc c) xs (acc @ [x]) s1"
      by (rule normalize_inputs_loop_step [OF PInput])
    from h1 PInput Cons.prems(2,3)
    have a1: "\<exists>f1. heap s1 a = PInput f1 \<and> input_name f1 = Some n"
      by (cases "a = x") (auto simp: default_input_name_def)
    then obtain f1 where f1: "heap s1 a = PInput f1" "input_name f1 = Some n" by blast
    show ?thesis
    proof (cases "urlparse_scheme X (ProcessingInput.source fx) \<noteq> ''s3'' \<and> current_job_name (processor s) = None")
      case True
      with run Cons.prems(1) have "s' = s1" by simp
      with a1 show ?thesis by simp
    next
      case False
      with run Cons.prems(1) have "normalize_inputs_loop X (Suc c) xs (acc @ [x]) s1 = (r, s')"
        by simp
      from Cons.IH [OF this f1] show ?thesis .
    qed
  next
    case (POutput x2)
    with Cons.prems show ?thesis by auto
  next
    case PyOther
    with Cons.prems show ?thesis by auto
  qed
qed

lemma first_index_Cons:
  "first_index (x # xs) a = (if a = x then 0 else Suc (first_index xs a))"
  by (auto simp: first_index_def)

lemma first_index_distinct:
  "distinct xs \<Longrightarrow> i < length xs \<Longrightarrow> first_index xs (xs ! i) = i"
proof (induction xs arbitrary: i)
  case Nil
  then show ?case by simp
next
  case (Cons x xs)
  then show ?case
    by (cases i) (auto simp: first_index_Cons)
qed

lemma normalize_inputs_loop_names:
  "normalize_inputs_loop X c xs acc s = (Inr ys, s') \<Longrightarrow> a \<in> set xs \<Longrightarrow>
   heap s a = PInput fi \<Longrightarrow>
   \<exists>fi'. heap s' a = PInput fi' \<and>
     input_name fi' = Some (default_input_name (c + first_index xs a) (input_name fi))"
proof (induction xs arbitrary: c acc s)
  case Nil
  then show ?case by simp
next
  case (Cons x xs)
  show ?case
  proof (cases "heap s x")
    case (PInput fx)
    obtain src s1 where
      h1: "heap s1 = (heap s)(x := PInput (fx\<lparr>input_name := Some (default_input_name c (input_name fx)),
                                         ProcessingInput.source := src\<rparr>))"
      and run: "if urlparse_scheme X (ProcessingInput.source fx) \<noteq> ''s3'' \<and> current_job_name (processor s) = None
         then \<forall>xs acc. normalize_inputs_loop X c (x # xs) acc s = (Inl TypeError, s1)
         else \<forall>xs acc. normalize_inputs_loop X c (x # xs) acc s =
            normalize_inputs_loop X (Suc c) xs (acc @ [x]) s1"
      by (rule normalize_inputs_loop_step [OF PInput])
    from run Cons.prems(1)
    have rest: "normalize_inputs_loop X (Suc c) xs (acc @ [x]) s1 = (Inr ys, s')"
      by (auto split: if_splits)
    show ?thesis
    proof (cases "a = x")
      case True
      with PInput Cons.prems(3) have "fx = fi" by simp
      with h1 True have
        "heap s1 a = PInput (fi\<lparr>input_name := Some (default_input_name c (input_name fi)),
                                 ProcessingInput.source := src\<rparr>)"
        by simp
      from normalize_inputs_loop_keeps_name [OF rest this, of "default_input_name c (input_name fi)"]
      show ?thesis using True by (simp add: first_index_Cons)
    next
      case False
      with Cons.prems(2) have mem: "a \<in> set xs" by simp
      from False h1 Cons.prems(3) have "heap s1 a = PInput fi" by simp
      from Cons.IH [OF rest mem this] False show ?thesis
        by (simp add: first_index_Cons)
    qed
  next
    case (POutput x2)
    with Cons.prems show ?thesis by auto
  next
    case PyOther
    with Cons.prems show ?thesis by auto
  qed
qed

lemma normalize_inputs_loop_stops:
  "\<not> isinstance_ProcessingInput (heap s b) \<Longrightarrow>
   normalize_inputs_loop X c (pre @ b # post) acc s =
     (Inl TypeError, snd (normalize_inputs_loop X c pre acc s))"
proof (induction pre arbitrary: c acc s)
  case Nil
  then have "normalize_inputs_loop X c (b # post) acc s = (Inl TypeError, s)"
    by (rule normalize_inputs_loop_not_input)
  then show ?case by simp
next
  case (Cons x pre)
  show ?case
  proof (cases "heap s x")
    case (PInput fx)
    obtain src s1 where
      h1: "heap s1 = (heap s)(x := PInput (fx\<lparr>input_name := Some (default_input_name c (input_name fx)),
                                         ProcessingInput.source := src\<rparr>))"
      and run: "if urlparse_scheme X (ProcessingInput.source fx) \<noteq> ''s3'' \<and> current_job_name (processor s) = None
         then \<forall>xs acc. normalize_inputs_loop X c (x # xs) acc s = (Inl TypeError, s1)
         else \<forall>xs acc. normalize_inputs_loop X c (x # xs) acc s =
            normalize_inputs_loop X (Suc c) xs (acc @ [x]) s1"
      by (rule normalize_inputs_loop_step [OF PInput])
    from PInput Cons.prems have "b \<noteq> x"
      by (auto simp: isinstance_ProcessingInput_def)
    with h1 Cons.prems have nb: "\<not> isinstance_ProcessingInput (heap s1 b)" by simp
    show ?thesis
    proof (cases "urlparse_scheme X (ProcessingInput.source fx) \<noteq> ''s3'' \<and> current_job_name (processor s) = None")
      case True
      with run show ?thesis by simp
    next
      case False
      with run have
        "normalize_inputs_loop X c ((x # pre) @ b # post) acc s =
           normalize_inputs_loop X (Suc c) (pre @ b # post) (acc @ [x]) s1"
        "normalize_inputs_loop X c (x # pre) acc s =
           normalize_inputs_loop X (Suc c) pre (acc @ [x]) s1"
        by simp_all
      with Cons.IH [OF nb] show ?thesis by simp
    qed
  next
    case (POutput x2)
    then show ?thesis by simp
  next
    case PyOther
    then show ?thesis by simp
  qed
qed

lemma normalize_inputs_loop_returns:
  "\<forall>a\<in>set xs. isinstance_ProcessingInput (heap s a) \<Longrightarrow>
   current_job_name (processor s) \<noteq> None \<Longrightarrow>
   \<exists>s'. normalize_inputs_loop X c xs acc s = (Inr (acc @ xs), s')"
proof (induction xs arbitrary: c acc s)
  case Nil
  then show ?case by simp
next
  case (Cons x xs)
  from Cons.prems(1) obtain fx where PInput: "heap s x = PInput fx"
    by (cases "heap s x") (auto simp: isinstance_ProcessingInput_def)
  obtain src s1 where
    h1: "heap s1 = (heap s)(x := PInput (fx\<lparr>input_name := Some (default_input_name c (input_name fx)),
                                       ProcessingInput.source := src\<rparr>))"
    and p1: "processor s1 = processor s"
    and run: "if urlparse_scheme X (ProcessingInput.source fx) \<noteq> ''s3'' \<and> current_job_name (processor s) = None
       then \<forall>xs acc. normalize_inputs_loop X c (x # xs) acc s = (Inl TypeError, s1)
       else \<forall>xs acc. normalize_inputs_loop X c (x # xs) acc s =
          normalize_inputs_loop X (Suc c) xs (acc @ [x]) s1"
    by (rule normalize_inputs_loop_step [OF PInput])
  from h1 Cons.prems(1) have all1: "\<forall>a\<in>set xs. isinstance_ProcessingInput (heap s1 a)"
    by (auto simp: isinstance_ProcessingInput_def)
  from p1 Cons.prems(2) have "current_job_name (processor s1) \<noteq> None" by simp
  from Cons.IH [OF all1 this, of "Suc c" "acc @ [x]"] run Cons.prems(2)
  show ?case by simp
qed

text \<open>The same for \<^verbatim>\<open>_normalize_outputs\<close>.\<close>

lemma normalize_outputs_loop_step:
  assumes "heap s x = POutput fo"
  obtains dst s1 where
    "heap s1 = (heap s)(x := POutput (fo\<lparr>output_name := Some (default_output_name c (output_name fo)),
                                         ProcessingOutput.destination := dst\<rparr>))"
    "processor s1 = processor s" "next_addr s1 = next_addr s"
    "if urlparse_scheme X (ProcessingOutput.destination fo) \<noteq> ''s3'' \<and> current_job_name (processor s) = None
     then \<forall>xs acc. normalize_outputs_loop X c (x # xs) acc s = (Inl TypeError, s1)
     else \<forall>xs acc. normalize_outputs_loop X c (x # xs) acc s =
            normalize_outputs_loop X (Suc c) xs (acc @ [x]) s1"
proof (cases "urlparse_scheme X (ProcessingOutput.destination fo) \<noteq> ''s3''")
  case False
  let ?s1 = "s\<lparr>heap := (heap s)(x := POutput (fo\<lparr>output_name := Some (default_output_name c (output_name fo))\<rparr>))\<rparr>"
  show ?thesis
  proof (rule that [of ?s1 "ProcessingOutput.destination fo"])
  qed (use assms False in \<open>simp_all add: default_output_name_def Let_def\<close>)
next
  case nons3: True
  show ?thesis
  proof (cases "current_job_name (processor s)")
    case None
    let ?s1 = "s\<lparr>heap := (heap s)(x := POutput (fo\<lparr>output_name := Some (default_output_name c (output_name fo))\<rparr>))\<rparr>"
    show ?thesis
    proof (rule that [of ?s1 "ProcessingOutput.destination fo"])
    qed (use assms nons3 None in \<open>simp_all add: default_output_name_def Let_def\<close>)
  next
    case (Some job)
    let ?name = "default_output_name c (output_name fo)"
    let ?dst = "os_path_join ''s3://'' [default_bucket X, job, ''output'']"
    let ?s2 = "s\<lparr>heap := (heap s)(x := POutput (fo\<lparr>output_name := Some ?name,
                                                   ProcessingOutput.destination := ?dst\<rparr>))\<rparr>"
    show ?thesis
    proof (rule that [of ?s2 ?dst])
    qed (use assms nons3 Some in \<open>simp_all add: default_output_name_def Let_def\<close>)
  qed
qed

lemma output_frame_refl: "output_frame ob ob"
  by (simp add: output_frame_def split: obj.splits)

lemma output_frame_trans:
  assumes "output_frame a b" and "output_frame b c"
  shows "output_frame a c"
proof (cases a)
  case (POutput i)
  with assms(1) obtain j where b: "b = POutput j"
    and j: "j = i\<lparr>output_name := output_name j, ProcessingOutput.destination := ProcessingOutput.destination j\<rparr>"
    by (auto simp: output_frame_def split: obj.splits)
  from assms(2) b obtain k where c: "c = POutput k"
    and k: "k = j\<lparr>output_name := output_name k, ProcessingOutput.destination := ProcessingOutput.destination k\<rparr>"
    by (auto simp: output_frame_def split: obj.splits)
  have "k = i\<lparr>output_name := output_name k, ProcessingOutput.destination := ProcessingOutput.destination k\<rparr>"
    by (subst k, subst j) simp
  with POutput c show ?thesis by (simp add: output_frame_def)
next
  case (PInput x)
  with assms show ?thesis by (simp add: output_frame_def)
next
  case PyOther
  with assms show ?thesis by (simp add: output_frame_def)
qed

lemma output_frame_heap_upd:
  assumes "output_frame (h x) ob" and "\<forall>a. output_frame ((h(x := ob)) a) (hh a)"
  shows "output_frame (h a) (hh a)"
proof (cases "a = x")
  case True
  from assms(2) have "output_frame ((h(x := ob)) x) (hh x)" ..
  then have "output_frame ob (hh x)" by simp
  with assms(1) True show ?thesis by (auto intro: output_frame_trans)
next
  case False
  from assms(2) have "output_frame ((h(x := ob)) a) (hh a)" ..
  with False show ?thesis by simp
qed

lemma normalize_outputs_loop_not_input:
  "\<not> isinstance_ProcessingOutput (heap s x) \<Longrightarrow>
   normalize_outputs_loop X c (x # xs) acc s = (Inl TypeError, s)"
  by (cases "heap s x") (simp_all add: isinstance_ProcessingOutput_def)

lemma normalize_outputs_loop_frame:
  "normalize_outputs_loop X c xs acc s = (r, s') \<Longrightarrow>
   (\<forall>a. output_frame (heap s a) (heap s' a)) \<and> processor s' = processor s \<and>
   next_addr s' = next_addr s \<and> (\<forall>ys. r = Inr ys \<longrightarrow> ys = acc @ xs)"
proof (induction xs arbitrary: c acc s)
  case Nil
  then show ?case by (auto simp: output_frame_refl)
next
  case (Cons x xs)
  show ?case
  proof (cases "heap s x")
    case (POutput fo)
    obtain dst s1 where
      h1: "heap s1 = (heap s)(x := POutput (fo\<lparr>output_name := Some (default_output_name c (output_name fo)),
                                         ProcessingOutput.destination := dst\<rparr>))"
      and p1: "processor s1 = processor s" "next_addr s1 = next_addr s"
      and run: "if urlparse_scheme X (ProcessingOutput.destination fo) \<noteq> ''s3'' \<and> current_job_name (processor s) = None
         then \<forall>xs acc. normalize_outputs_loop X c (x # xs) acc s = (Inl TypeError, s1)
         else \<forall>xs acc. normalize_outputs_loop X c (x # xs) acc s =
            normalize_outputs_loop X (Suc c) xs (acc @ [x]) s1"
      by (rule normalize_outputs_loop_step [OF POutput])
    have f1: "output_frame (heap s x) (POutput (fo\<lparr>output_name := Some (default_output_name c (output_name fo)),
                                         ProcessingOutput.destination := dst\<rparr>))"
      by (simp add: POutput output_frame_def)
    show ?thesis
    proof (cases "urlparse_scheme X (ProcessingOutput.destination fo) \<noteq> ''s3'' \<and> current_job_name (processor s) = None")
      case True
      with run Cons.prems have "r = Inl TypeError" "s' = s1" by simp_all
      with f1 h1 p1 show ?thesis by (auto simp: output_frame_refl)
    next
      case False
      with run Cons.prems have "normalize_outputs_loop X (Suc c) xs (acc @ [x]) s1 = (r, s')"
        by simp
      from Cons.IH [OF this] h1 p1
      have ih: "\<forall>a. output_frame (((heap s)(x := POutput (fo\<lparr>output_name := Some (default_output_name c (output_name fo)),
                                         ProcessingOutput.destination := dst\<rparr>))) a) (heap s' a)"
        and rest: "processor s' = processor s" "next_addr s' = next_addr s"
          "\<forall>ys. r = Inr ys \<longrightarrow> ys = acc @ x # xs"
        by simp_all
      from output_frame_heap_upd [OF f1 ih] rest show ?thesis by simp
    qed
  next
    case (PInput x2)
    with Cons.prems show ?thesis by (auto simp: output_frame_refl)
  next
    case PyOther
    with Cons.prems show ?thesis by (auto simp: output_frame_refl)
  qed
qed

lemma normalize_outputs_loop_keeps_name:
  "normalize_outputs_loop X c xs acc s = (r, s') \<Longrightarrow> heap s a = POutput fo \<Longrightarrow>
   output_name fo = Some n \<Longrightarrow> \<exists>fo'. heap s' a = POutput fo' \<and> output_name fo' = Some n"
proof (induction xs arbitrary: c acc s fo)
  case Nil
  then show ?case by simp
next
  case (Cons x xs)
  show ?case
  proof (cases "heap s x")
    case (POutput ox)
    obtain dst s1 where
      h1: "heap s1 = (heap s)(x := POutput (ox\<lparr>output_name := Some (default_output_name c (output_name ox)),
                                         ProcessingOutput.destination := dst\<rparr>))"
      and run: "if urlparse_scheme X (ProcessingOutput.destination ox) \<noteq> ''s3'' \<and> current_job_name (processor s) = None
         then \<forall>xs acc. normalize_outputs_loop X c (x # xs) acc s = (Inl TypeError, s1)
         else \<forall>xs acc. normalize_outputs_loop X c (x # xs) acc s =
            normalize_outputs_loop X (Suc c) xs (acc @ [x]) s1"
      by (rule normalize_outputs_loop_step [OF POutput])
    from h1 POutput Cons.prems(2,3)
    have a1: "\<exists>f1. heap s1 a = POutput f1 \<and> output_name f1 = Some n"
      by (cases "a = x") (auto simp: default_output_name_def)
    then obtain f1 where f1: "heap s1 a = POutput f1" "output_name f1 = Some n" by blast
    show ?thesis
    proof (cases "urlparse_scheme X (ProcessingOutput.destination ox) \<noteq> ''s3'' \<and> current_job_name (processor s) = None")
      case True
      with run Cons.prems(1) have "s' = s1" by simp
      with a1 show ?thesis by simp
    next
      case False
      with run Cons.prems(1) have "normalize_outputs_loop X (Suc c) xs (acc @ [x]) s1 = (r, s')"
        by simp
      from Cons.IH [OF this f1] show ?thesis .
    qed
  next
    case (PInput x2)
    with Cons.prems show ?thesis by auto
  next
    case PyOther
    with Cons.prems show ?thesis by auto
  qed
qed

lemma normalize_outputs_loop_names:
  "normalize_outputs_loop X c xs acc s = (Inr ys, s') \<Longrightarrow> a \<in> set xs \<Longrightarrow>
   heap s a = POutput fo \<Longrightarrow>
   \<exists>fo'. heap s' a = POutput fo' \<and>
     output_name fo' = Some (default_output_name (c + first_index xs a) (output_name fo))"
proof (induction xs arbitrary: c acc s)
  case Nil
  then show ?case by simp
next
  case (Cons x xs)
  show ?case
  proof (cases "heap s x")
    case (POutput ox)
    obtain dst s1 where
      h1: "heap s1 = (heap s)(x := POutput (ox\<lparr>output_name := Some (default_output_name c (output_name ox)),
                                         ProcessingOutput.destination := dst\<rparr>))"
      and run: "if urlparse_scheme X (ProcessingOutput.destination ox) \<noteq> ''s3'' \<and> current_job_name (processor s) = None
         then \<forall>xs acc. normalize_outputs_loop X c (x # xs) acc s = (Inl TypeError, s1)
         else \<forall>xs acc. normalize_outputs_loop X c (x # xs) acc s =
            normalize_outputs_loop X (Suc c) xs (acc @ [x]) s1"
      by (rule normalize_outputs_loop_step [OF POutput])
    from run Cons.prems(1)
    have rest: "normalize_outputs_loop X (Suc c) xs (acc @ [x]) s1 = (Inr ys, s')"
      by (auto split: if_splits)
    show ?thesis
    proof (cases "a = x")
      case True
      with POutput Cons.prems(3) have "ox = fo" by simp
      with h1 True have
        "heap s1 a = POutput (fo\<lparr>output_name := Some (default_output_name c (output_name fo)),
                                 ProcessingOutput.destination := dst\<rparr>)"
        by simp
      from normalize_outputs_loop_keeps_name [OF rest this, of "default_output_name c (output_name fo)"]
      show ?thesis using True by (simp add: first_index_Cons)
    next
      case False
      with Cons.prems(2) have mem: "a \<in> set xs" by simp
      from False h1 Cons.prems(3) have "heap s1 a = POutput fo" by simp
      from Cons.IH [OF rest mem this] False show ?thesis
        by (simp add: first_index_Cons)
    qed
  next
    case (PInput x2)
    with Cons.prems show ?thesis by auto
  next
    case PyOther
    with Cons.prems show ?thesis by auto
  qed
qed

lemma normalize_outputs_loop_stops:
  "\<not> isinstance_ProcessingOutput (heap s b) \<Longrightarrow>
   normalize_outputs_loop X c (pre @ b # post) acc s =
     (Inl TypeError, snd (normalize_outputs_loop X c pre acc s))"
proof (induction pre arbitrary: c acc s)
  case Nil
  then have "normalize_outputs_loop X c (b # post) acc s = (Inl TypeError, s)"
    by (rule normalize_outputs_loop_not_input)
  then show ?case by simp
next
  case (Cons x pre)
  show ?case
  proof (cases "heap s x")
    case (POutput ox)
    obtain dst s1 where
      h1: "heap s1 = (heap s)(x := POutput (ox\<lparr>output_name := Some (default_output_name c (output_name ox)),
                                         ProcessingOutput.destination := dst\<rparr>))"
      and run: "if urlparse_scheme X (ProcessingOutput.destination ox) \<noteq> ''s3'' \<and> current_job_name (processor s) = None
         then \<forall>xs acc. normalize_outputs_loop X c (x # xs) acc s = (Inl TypeError, s1)
         else \<forall>xs acc. normalize_outputs_loop X c (x # xs) acc s =
            normalize_outputs_loop X (Suc c) xs (acc @ [x]) s1"
      by (rule normalize_outputs_loop_step [OF POutput])
    from POutput Cons.prems have "b \<noteq> x"
      by (auto simp: isinstance_ProcessingOutput_def)
    with h1 Cons.prems have nb: "\<not> isinstance_ProcessingOutput (heap s1 b)" by simp
    show ?thesis
    proof (cases "urlparse_scheme X (ProcessingOutput.destination ox) \<noteq> ''s3'' \<and> current_job_name (processor s) = None")
      case True
      with run show ?thesis by simp
    next
      case False
      with run have
        "normalize_outputs_loop X c ((x # pre) @ b # post) acc s =
           normalize_outputs_loop X (Suc c) (pre @ b # post) (acc @ [x]) s1"
        "normalize_outputs_loop X c (x # pre) acc s =
           normalize_outputs_loop X (Suc c) pre (acc @ [x]) s1"
        by simp_all
      with Cons.IH [OF nb] show ?thesis by simp
    qed
  next
    case (PInput x2)
    then show ?thesis by simp
  next
    case PyOther
    then show ?thesis by simp
  qed
qed

lemma normalize_outputs_loop_returns:
  "\<forall>a\<in>set xs. isinstance_ProcessingOutput (heap s a) \<Longrightarrow>
   current_job_name (processor s) \<noteq> None \<Longrightarrow>
   \<exists>s'. normalize_outputs_loop X c xs acc s = (Inr (acc @ xs), s')"
proof (induction xs arbitrary: c acc s)
  case Nil
  then show ?case by simp
next
  case (Cons x xs)
  from Cons.prems(1) obtain ox where POutput: "heap s x = POutput ox"
    by (cases "heap s x") (auto simp: isinstance_ProcessingOutput_def)
  obtain dst s1 where
    h1: "heap s1 = (heap s)(x := POutput (ox\<lparr>output_name := Some (default_output_name c (output_name ox)),
                                       ProcessingOutput.destination := dst\<rparr>))"
    and p1: "processor s1 = processor s"
    and run: "if urlparse_scheme X (ProcessingOutput.destination ox) \<noteq> ''s3'' \<and> current_job_name (processor s) = None
       then \<forall>xs acc. normalize_outputs_loop X c (x # xs) acc s = (Inl TypeError, s1)
       else \<forall>xs acc. normalize_outputs_loop X c (x # xs) acc s =
          normalize_outputs_loop X (Suc c) xs (acc @ [x]) s1"
    by (rule normalize_outputs_loop_step [OF POutput])
  from h1 Cons.prems(1) have all1: "\<forall>a\<in>set xs. isinstance_ProcessingOutput (heap s1 a)"
    by (auto simp: isinstance_ProcessingOutput_def)
  from p1 Cons.prems(2) have "current_job_name (processor s1) \<noteq> None" by simp
  from Cons.IH [OF all1 this, of "Suc c" "acc @ [x]"] run Cons.prems(2)
  show ?case by simp
qed

section \<open>Request dictionaries\<close>

text \<open>
  C3. Serializing a \<^verbatim>\<open>ProcessingInput\<close> raises \<^verbatim>\<open>ValueError\<close> exactly when the
  compression type is \<^verbatim>\<open>"Gzip"\<close> and the input mode is not \<^verbatim>\<open>"Pipe"\<close>; in every
  other case a request dictionary is returned.
\<close>

theorem to_request_dict_raises_iff:
  "(if s3_compression_type self = Some ''Gzip'' \<and> s3_input_mode self \<noteq> ''Pipe''
    then ProcessingInput_to_request_dict self = Inl ValueError
    else (\<exists>d. ProcessingInput_to_request_dict self = Inr (PyDict d)))"
  by (simp add: ProcessingInput_to_request_dict_def split: option.splits)

theorem to_request_dict_raises_iff_witness:
  "ProcessingInput_to_request_dict
     ((ProcessingInput_init ''s3://bucket/data'' ''/opt/ml/processing/input'' None)
        \<lparr>s3_compression_type := Some ''Gzip''\<rparr>) = Inl ValueError
   \<and> (\<exists>d. ProcessingInput_to_request_dict
         ((ProcessingInput_init ''s3://bucket/data'' ''/opt/ml/processing/input'' None)
            \<lparr>s3_compression_type := Some ''Gzip'', s3_input_mode := ''Pipe''\<rparr>) =
         Inr (PyDict d))"
  using
    to_request_dict_raises_iff
      [of "(ProcessingInput_init ''s3://bucket/data'' ''/opt/ml/processing/input'' None)
             \<lparr>s3_compression_type := Some ''Gzip''\<rparr>"]
    to_request_dict_raises_iff
      [of "(ProcessingInput_init ''s3://bucket/data'' ''/opt/ml/processing/input'' None)
             \<lparr>s3_compression_type := Some ''Gzip'', s3_input_mode := ''Pipe''\<rparr>"]
  by (simp add: ProcessingInput_init_def)

text \<open>
  C9. The dictionary that \<^verbatim>\<open>ProcessingInput.to_request_dict\<close> returns has the key
  \<^verbatim>\<open>S3CompressionType\<close> in its \<^verbatim>\<open>S3Input\<close> part exactly when the compression type
  is a string, and then with that string as value: the guard compares with \<^verbatim>\<open>None\<close>,
  so the default string \<^verbatim>\<open>"None"\<close> is written like any other.
\<close>

theorem compression_type_key:
  "ProcessingInput_to_request_dict self = Inr d \<Longrightarrow>
   \<exists>top sub. d = PyDict top \<and> dict_get top ''S3Input'' = Some (PyDict sub) \<and>
     dict_get sub ''S3CompressionType'' = map_option PyStr (s3_compression_type self)"
  by (auto simp: ProcessingInput_to_request_dict_def dict_get_def S3Input_dict_def
      split: if_splits option.splits)

theorem compression_type_key_witness:
  "ProcessingInput_to_request_dict
     (ProcessingInput_init ''s3://bucket/data'' ''/opt/ml/processing/input'' (Some ''data'')) =
     Inr (PyDict [(''InputName'', PyStr ''data''),
                  (''S3Input'',
                     PyDict [(''S3Uri'', PyStr ''s3://bucket/data''),
                             (''LocalPath'', PyStr ''/opt/ml/processing/input''),
                             (''S3DataType'', PyStr ''ManifestFile''),
                             (''S3InputMode'', PyStr ''File''),
                             (''S3DownloadMode'', PyStr ''Continuous''),
                             (''S3DataDistributionType'', PyStr ''FullyReplicated''),
                             (''S3CompressionType'', PyStr ''None'')])])
   \<and> (\<exists>top sub.
         PyDict [(''InputName'', PyStr ''data''),
                  (''S3Input'',
                     PyDict [(''S3Uri'', PyStr ''s3://bucket/data''),
                             (''LocalPath'', PyStr ''/opt/ml/processing/input''),
                             (''S3DataType'', PyStr ''ManifestFile''),
                             (''S3InputMode'', PyStr ''File''),
                             (''S3DownloadMode'', PyStr ''Continuous''),
                             (''S3DataDistributionType'', PyStr ''FullyReplicated''),
                             (''S3CompressionType'', PyStr ''None'')])] = PyDict top
         \<and> dict_get top ''S3Input'' = Some (PyDict sub)
         \<and> dict_get sub ''S3CompressionType'' = Some (PyStr ''None''))"
proof -
  have h: "ProcessingInput_to_request_dict
     (ProcessingInput_init ''s3://bucket/data'' ''/opt/ml/processing/input'' (Some ''data'')) =
     Inr (PyDict [(''InputName'', PyStr ''data''),
                  (''S3Input'',
                     PyDict [(''S3Uri'', PyStr ''s3://bucket/data''),
                             (''LocalPath'', PyStr ''/opt/ml/processing/input''),
                             (''S3DataType'', PyStr ''ManifestFile''),
                             (''S3InputMode'', PyStr ''File''),
                             (''S3DownloadMode'', PyStr ''Continuous''),
                             (''S3DataDistributionType'', PyStr ''FullyReplicated''),
                             (''S3CompressionType'', PyStr ''None'')])])"
    by (simp add: ProcessingInput_to_request_dict_def ProcessingInput_init_def S3Input_dict_def
        py_opt_str_def)
  have c: "s3_compression_type
      (ProcessingInput_init ''s3://bucket/data'' ''/opt/ml/processing/input'' (Some ''data'')) =
      Some ''None''"
    by (simp add: ProcessingInput_init_def)
  from compression_type_key [OF h] h c show ?thesis by simp
qed

section \<open>Normalization\<close>

lemma ex_heap_simps:
  "ex_heap 0 = PInput (ProcessingInput_init ''s3://bucket/data'' ''/opt/ml/processing/input'' None)"
  "ex_heap (Suc 0) = PInput (ProcessingInput_init ''data/train.csv'' ''/opt/ml/processing/train'' None)"
  "ex_heap 2 = POutput (ProcessingOutput_init ''/opt/ml/processing/output'' ''results'' (Some ''train''))"
  "ex_heap 5 = PyOther"
  by (simp_all add: ex_heap_def)

lemma ex_heap_outputs_simps:
  "ex_heap_outputs 0 =
     PInput (ProcessingInput_init ''s3://bucket/data'' ''/opt/ml/processing/input'' None)"
  "ex_heap_outputs (Suc 0) =
     PInput (ProcessingInput_init ''data/train.csv'' ''/opt/ml/processing/train'' None)"
  "ex_heap_outputs 2 =
     POutput (ProcessingOutput_init ''/opt/ml/processing/output'' ''results'' (Some ''train''))"
  "ex_heap_outputs 3 =
     POutput (ProcessingOutput_init ''/opt/ml/processing/model'' ''models'' None)"
  "ex_heap_outputs 4 =
     POutput (ProcessingOutput_init ''/opt/ml/processing/report'' ''s3://bucket/reports'' None)"
  by (simp_all add: ex_heap_outputs_def ex_heap_def)

text \<open>Paths: the base name holds no separator, and plain components are joined by one.\<close>

lemma basename_no_sep: "CHR ''/'' \<notin> set (os_path_basename p)"
proof
  assume "CHR ''/'' \<in> set (os_path_basename p)"
  then have "CHR ''/'' \<in> set (takeWhile (\<lambda>c. c \<noteq> CHR ''/'') (rev p))"
    by (simp add: os_path_basename_def)
  then show False by (auto dest: set_takeWhileD)
qed

lemma not_startswith_sep: "CHR ''/'' \<notin> set n \<Longrightarrow> \<not> startswith_sep n"
  by (cases n) (auto simp: startswith_sep_def)

lemma not_endswith_sep_append:
  "x \<noteq> [] \<Longrightarrow> CHR ''/'' \<notin> set x \<Longrightarrow> \<not> endswith_sep (p @ x)"
  by (auto simp: endswith_sep_def dest: last_in_set)

lemma join_step_plain:
  "x \<noteq> [] \<Longrightarrow> CHR ''/'' \<notin> set x \<Longrightarrow> \<not> startswith_sep n \<Longrightarrow>
   join_step (p @ x) n = p @ x @ ''/'' @ n"
  by (simp add: join_step_def not_endswith_sep_append)

lemma s3_uri_join:
  assumes "b \<noteq> []" "CHR ''/'' \<notin> set b" "j \<noteq> []" "CHR ''/'' \<notin> set j"
  shows "os_path_join ''s3://'' [b, j, ''output''] = ''s3://'' @ b @ ''/'' @ j @ ''/output''"
    and "\<not> startswith_sep n \<Longrightarrow>
         os_path_join ''s3://'' [b, j, ''input'', n] = ''s3://'' @ b @ ''/'' @ j @ ''/input/'' @ n"
proof -
  have first: "join_step ''s3://'' b = ''s3://'' @ b"
    using assms(2) by (simp add: join_step_def not_startswith_sep endswith_sep_def)
  have second: "join_step (''s3://'' @ b) j = ''s3://'' @ b @ ''/'' @ j"
    using assms by (simp add: join_step_plain not_startswith_sep del: append.simps)
  have third: "join_step ((''s3://'' @ b @ ''/'') @ j) w = (''s3://'' @ b @ ''/'') @ j @ ''/'' @ w"
    if "\<not> startswith_sep w" for w
    by (rule join_step_plain) (use assms that in simp_all)
  have out: "\<not> startswith_sep ''output''" and inp: "\<not> startswith_sep ''input''"
    by (simp_all add: startswith_sep_def)
  show "os_path_join ''s3://'' [b, j, ''output''] = ''s3://'' @ b @ ''/'' @ j @ ''/output''"
    using first second third [OF out] by (simp add: os_path_join_def)
  show "os_path_join ''s3://'' [b, j, ''input'', n] = ''s3://'' @ b @ ''/'' @ j @ ''/input/'' @ n"
    if n: "\<not> startswith_sep n"
  proof -
    have "join_step ((''s3://'' @ b @ ''/'' @ j @ ''/'') @ ''input'') n =
        (''s3://'' @ b @ ''/'' @ j @ ''/'') @ ''input'' @ ''/'' @ n"
      by (rule join_step_plain) (use n in simp_all)
    with first second third [OF inp] show ?thesis by (simp add: os_path_join_def)
  qed
qed

text \<open>
  A list of one local descriptor. The input is uploaded to a URI that ends with its name;
  the URI stored in an output ends with \<^verbatim>\<open>output\<close>.
\<close>

lemma normalize_inputs_single:
  assumes "heap s a = PInput fi" and "urlparse_scheme X (ProcessingInput.source fi) \<noteq> ''s3''"
    and "current_job_name (processor s) = Some job"
  shows "normalize_inputs X (Some [a]) s =
    (Inr [a],
     s\<lparr>calls := calls s @
          [Upload (ProcessingInput.source fi)
             (os_path_join ''s3://''
                [default_bucket X, job, ''input'', default_input_name 1 (input_name fi)])],
       heap := (heap s)
          (a := PInput (fi\<lparr>input_name := Some (default_input_name 1 (input_name fi)),
                           ProcessingInput.source :=
                             upload X (ProcessingInput.source fi)
                               (os_path_join ''s3://''
                                  [default_bucket X, job, ''input'',
                                   default_input_name 1 (input_name fi)])\<rparr>))\<rparr>)"
  using assms by (simp add: normalize_inputs_def default_input_name_def Let_def)

lemma normalize_outputs_single:
  assumes "heap s a = POutput fo" and "urlparse_scheme X (ProcessingOutput.destination fo) \<noteq> ''s3''"
    and "current_job_name (processor s) = Some job"
  shows "normalize_outputs X (Some [a]) s =
    (Inr [a],
     s\<lparr>heap := (heap s)
          (a := POutput (fo\<lparr>output_name := Some (default_output_name 1 (output_name fo)),
                            ProcessingOutput.destination :=
                              os_path_join ''s3://'' [default_bucket X, job, ''output'']\<rparr>))\<rparr>)"
  using assms by (simp add: normalize_outputs_def default_output_name_def Let_def)

text \<open>
  C1. Claimed: a destination that is not an s3 URI becomes
  \<^verbatim>\<open>s3://<default-bucket>/<job-name>/output/<output-name>\<close>, as a local source becomes
  the upload under \<^verbatim>\<open>s3://<default-bucket>/<job-name>/input/<input-name>\<close>. On the
  output named \<^verbatim>\<open>train\<close> with destination \<^verbatim>\<open>results\<close>, bucket \<^verbatim>\<open>bucket\<close> and
  job name \<^verbatim>\<open>job\<close>, \<^verbatim>\<open>_normalize_outputs\<close> stores \<^verbatim>\<open>s3://bucket/job/output\<close>:
  the output name is not part of the URI.
\<close>

theorem normalize_outputs_omits_output_name:
  "normalize_outputs ex_externals (Some [2]) ex_state =
     (Inr [2],
      ex_state\<lparr>heap := ex_heap
        (2 := POutput
                ((ProcessingOutput_init ''/opt/ml/processing/output'' ''results'' (Some ''train''))
                   \<lparr>ProcessingOutput.destination := ''s3://bucket/job/output''\<rparr>))\<rparr>)"
  by (simp add: normalize_outputs_def ex_state_def ex_heap_simps ex_externals_def
      ex_processor_def ProcessingOutput_init_def os_path_join_def join_step_def
      startswith_sep_def endswith_sep_def)

text \<open>Normalization returns a list when every element has the right class and the job name is set.\<close>

lemma normalize_inputs_returns:
  "\<forall>a\<in>set xs. isinstance_ProcessingInput (heap s a) \<Longrightarrow>
   current_job_name (processor s) \<noteq> None \<Longrightarrow>
   fst (normalize_inputs X (Some xs) s) = Inr xs"
  using normalize_inputs_loop_returns [of xs s X 1 "[]"]
  by (auto simp: normalize_inputs_def)

lemma normalize_outputs_returns:
  "\<forall>a\<in>set xs. isinstance_ProcessingOutput (heap s a) \<Longrightarrow>
   current_job_name (processor s) \<noteq> None \<Longrightarrow>
   fst (normalize_outputs X (Some xs) s) = Inr xs"
  using normalize_outputs_loop_returns [of xs s X 1 "[]"]
  by (auto simp: normalize_outputs_def)

lemma normalize_inputs_names:
  assumes "fst (normalize_inputs X (Some xs) s) = Inr ys" and "a \<in> set xs"
    and "heap s a = PInput fi"
  shows "\<exists>fi'. heap (snd (normalize_inputs X (Some xs) s)) a = PInput fi' \<and>
           input_name fi' = Some (default_input_name (Suc (first_index xs a)) (input_name fi))"
proof -
  from assms(1) have "normalize_inputs_loop X 1 xs [] s =
      (Inr ys, snd (normalize_inputs X (Some xs) s))"
    by (simp add: normalize_inputs_def prod_eq_iff)
  from normalize_inputs_loop_names [OF this assms(2,3)] show ?thesis by simp
qed

lemma normalize_outputs_names:
  assumes "fst (normalize_outputs X (Some xs) s) = Inr ys" and "a \<in> set xs"
    and "heap s a = POutput fo"
  shows "\<exists>fo'. heap (snd (normalize_outputs X (Some xs) s)) a = POutput fo' \<and>
           output_name fo' = Some (default_output_name (Suc (first_index xs a)) (output_name fo))"
proof -
  from assms(1) have "normalize_outputs_loop X 1 xs [] s =
      (Inr ys, snd (normalize_outputs X (Some xs) s))"
    by (simp add: normalize_outputs_def prod_eq_iff)
  from normalize_outputs_loop_names [OF this assms(2,3)] show ?thesis by simp
qed

text \<open>
  C2. Normalization of a list of \<^verbatim>\<open>ProcessingInput\<close> objects (of
  \<^verbatim>\<open>ProcessingOutput\<close> objects) returns once the job name is set, and after it a
  descriptor whose name was \<^verbatim>\<open>None\<close> is called \<^verbatim>\<open>input-N\<close> (an output
  \<^verbatim>\<open>output-N\<close>), \<open>N\<close> being its position in the list counted from 1, while a
  descriptor that had a name keeps it. The position of an object is that of its first
  occurrence, \<open>first_index\<close>: the loop names the object there, and finds it named if the
  list holds it again.
\<close>

theorem normalize_default_names:
  "((\<forall>x\<in>set xs. isinstance_ProcessingInput (heap s x)) \<and>
      current_job_name (processor s) \<noteq> None \<longrightarrow>
      fst (normalize_inputs X (Some xs) s) = Inr xs)
   \<and> (fst (normalize_inputs X (Some xs) s) = Inr ys \<and> a \<in> set xs \<and> heap s a = PInput fi \<longrightarrow>
      (\<exists>fi'. heap (snd (normalize_inputs X (Some xs) s)) a = PInput fi' \<and>
         input_name fi' =
           Some (case input_name fi of
                   None \<Rightarrow> ''input-'' @ str_nat (Suc (first_index xs a))
                 | Some n \<Rightarrow> n)))
   \<and> ((\<forall>z\<in>set zs. isinstance_ProcessingOutput (heap s z)) \<and>
      current_job_name (processor s) \<noteq> None \<longrightarrow>
      fst (normalize_outputs X (Some zs) s) = Inr zs)
   \<and> (fst (normalize_outputs X (Some zs) s) = Inr ws \<and> b \<in> set zs \<and> heap s b = POutput fo \<longrightarrow>
      (\<exists>fo'. heap (snd (normalize_outputs X (Some zs) s)) b = POutput fo' \<and>
         output_name fo' =
           Some (case output_name fo of
                   None \<Rightarrow> ''output-'' @ str_nat (Suc (first_index zs b))
                 | Some n \<Rightarrow> n)))"
  using normalize_inputs_names [of X xs s ys a fi] normalize_outputs_names [of X zs s ws b fo]
    normalize_inputs_returns [of xs s X] normalize_outputs_returns [of zs s X]
  by (simp add: default_input_name_def default_output_name_def)

theorem normalize_default_names_witness:
  "(isinstance_ProcessingInput (heap ex_state_outputs 1) \<and>
      isinstance_ProcessingInput (heap ex_state_outputs 0) \<and>
      current_job_name (processor ex_state_outputs) \<noteq> None)
   \<and> fst (normalize_inputs ex_externals (Some [1, 0, 1]) ex_state_outputs) = Inr [1, 0, 1]
   \<and> (0 \<in> set [1, 0, 1::nat] \<and>
      heap ex_state_outputs 0 =
        PInput (ProcessingInput_init ''s3://bucket/data'' ''/opt/ml/processing/input'' None))
   \<and> (\<exists>fi'. heap (snd (normalize_inputs ex_externals (Some [1, 0, 1]) ex_state_outputs)) 0 =
               PInput fi' \<and> input_name fi' = Some ''input-2'')
   \<and> (isinstance_ProcessingOutput (heap ex_state_outputs 3) \<and>
      isinstance_ProcessingOutput (heap ex_state_outputs 2) \<and>
      isinstance_ProcessingOutput (heap ex_state_outputs 4))
   \<and> fst (normalize_outputs ex_externals (Some [3, 2, 4]) ex_state_outputs) = Inr [3, 2, 4]
   \<and> (4 \<in> set [3, 2, 4::nat] \<and>
      heap ex_state_outputs 4 =
        POutput (ProcessingOutput_init ''/opt/ml/processing/report'' ''s3://bucket/reports'' None))
   \<and> (\<exists>fo'. heap (snd (normalize_outputs ex_externals (Some [3, 2, 4]) ex_state_outputs)) 4 =
               POutput fo' \<and> output_name fo' = Some ''output-3'')
   \<and> (3 \<in> set [3, 2, 4::nat] \<and>
      heap ex_state_outputs 3 =
        POutput (ProcessingOutput_init ''/opt/ml/processing/model'' ''models'' None))
   \<and> (\<exists>fo'. heap (snd (normalize_outputs ex_externals (Some [3, 2, 4]) ex_state_outputs)) 3 =
               POutput fo' \<and> output_name fo' = Some ''output-1'')
   \<and> (2 \<in> set [3, 2, 4::nat] \<and>
      heap ex_state_outputs 2 =
        POutput (ProcessingOutput_init ''/opt/ml/processing/output'' ''results'' (Some ''train'')))
   \<and> (\<exists>fo'. heap (snd (normalize_outputs ex_externals (Some [3, 2, 4]) ex_state_outputs)) 2 =
               POutput fo' \<and> output_name fo' = Some ''train'')"
proof -
  have ins: "\<forall>x\<in>set [1, 0, 1]. isinstance_ProcessingInput (heap ex_state_outputs x)"
    by (simp add: ex_state_outputs_def ex_heap_outputs_simps isinstance_ProcessingInput_def)
  have outs: "\<forall>z\<in>set [3, 2, 4]. isinstance_ProcessingOutput (heap ex_state_outputs z)"
    by (simp add: ex_state_outputs_def ex_heap_outputs_simps isinstance_ProcessingOutput_def)
  have job: "current_job_name (processor ex_state_outputs) \<noteq> None"
    by (simp add: ex_state_outputs_def ex_processor_def)
  have h: "heap ex_state_outputs 0 =
        PInput (ProcessingInput_init ''s3://bucket/data'' ''/opt/ml/processing/input'' None)"
    "heap ex_state_outputs 4 =
        POutput (ProcessingOutput_init ''/opt/ml/processing/report'' ''s3://bucket/reports'' None)"
    "heap ex_state_outputs 3 =
        POutput (ProcessingOutput_init ''/opt/ml/processing/model'' ''models'' None)"
    "heap ex_state_outputs 2 =
        POutput (ProcessingOutput_init ''/opt/ml/processing/output'' ''results'' (Some ''train''))"
    by (simp_all add: ex_state_outputs_def ex_heap_outputs_simps)
  have i: "first_index [1, 0, 1::nat] 0 = 1" "first_index [3, 2, 4::nat] 4 = 2"
    "first_index [3, 2, 4::nat] 3 = 0" "first_index [3, 2, 4::nat] 2 = 1"
    by (simp_all add: first_index_def)
  note t = normalize_default_names
    [where X = ex_externals and s = ex_state_outputs and xs = "[1, 0, 1]" and ys = "[1, 0, 1]"
       and a = 0 and zs = "[3, 2, 4]" and ws = "[3, 2, 4]"
       and fi = "ProcessingInput_init ''s3://bucket/data'' ''/opt/ml/processing/input'' None"]
  from t [where b = 4 and
            fo = "ProcessingOutput_init ''/opt/ml/processing/report'' ''s3://bucket/reports'' None"]
    t [where b = 3 and
            fo = "ProcessingOutput_init ''/opt/ml/processing/model'' ''models'' None"]
    t [where b = 2 and
            fo = "ProcessingOutput_init ''/opt/ml/processing/output'' ''results'' (Some ''train'')"]
    ins outs job h i
  show ?thesis
    by (simp add: ProcessingInput_init_def ProcessingOutput_init_def str_nat.simps)
qed

text \<open>
  In a list without repetition every element is at its first occurrence, so the element
  at index \<open>i\<close> gets the number \<open>i + 1\<close>. An object listed twice keeps the name of its
  first occurrence.
\<close>

lemma normalize_inputs_names_by_position:
  assumes "fst (normalize_inputs X (Some xs) s) = Inr ys" and "distinct xs"
    and "i < length xs" and "heap s (xs ! i) = PInput fi"
  shows "\<exists>fi'. heap (snd (normalize_inputs X (Some xs) s)) (xs ! i) = PInput fi' \<and>
           input_name fi' = Some (default_input_name (Suc i) (input_name fi))"
  using normalize_inputs_names [OF assms(1) _ assms(4)] assms(2,3)
  by (simp add: first_index_distinct)

lemma normalize_outputs_names_by_position:
  assumes "fst (normalize_outputs X (Some xs) s) = Inr ys" and "distinct xs"
    and "i < length xs" and "heap s (xs ! i) = POutput fo"
  shows "\<exists>fo'. heap (snd (normalize_outputs X (Some xs) s)) (xs ! i) = POutput fo' \<and>
           output_name fo' = Some (default_output_name (Suc i) (output_name fo))"
  using normalize_outputs_names [OF assms(1) _ assms(4)] assms(2,3)
  by (simp add: first_index_distinct)

lemma normalize_inputs_repeated_object:
  "normalize_inputs ex_externals (Some [0, 0]) ex_state =
     (Inr [0, 0],
      ex_state\<lparr>heap := ex_heap
        (0 := PInput (ProcessingInput_init ''s3://bucket/data'' ''/opt/ml/processing/input''
                        (Some ''input-1'')))\<rparr>)"
  by (simp add: normalize_inputs_def ex_state_def ex_heap_simps ex_externals_def
      ex_processor_def ProcessingInput_init_def str_nat.simps Let_def)

text \<open>
  C7. When a list holds an element that is not a \<^verbatim>\<open>ProcessingInput\<close> (for
  \<^verbatim>\<open>_normalize_outputs\<close>: not a \<^verbatim>\<open>ProcessingOutput\<close>), normalization raises
  \<^verbatim>\<open>TypeError\<close>, and the state it leaves is the one reached on the elements before
  that one: nothing after it is named, uploaded or rewritten.
\<close>

theorem normalize_stops_at_wrong_type:
  "(\<not> isinstance_ProcessingInput (heap s b) \<longrightarrow>
      normalize_inputs X (Some (pre @ b # post)) s =
        (Inl TypeError, snd (normalize_inputs X (Some pre) s)))
   \<and> (\<not> isinstance_ProcessingOutput (heap s b') \<longrightarrow>
      normalize_outputs X (Some (pre' @ b' # post')) s =
        (Inl TypeError, snd (normalize_outputs X (Some pre') s)))"
  by (simp add: normalize_inputs_def normalize_outputs_def normalize_inputs_loop_stops
      normalize_outputs_loop_stops)

theorem normalize_stops_at_wrong_type_witness:
  "\<not> isinstance_ProcessingInput (heap ex_state 5)
   \<and> normalize_inputs ex_externals (Some ([0] @ 5 # [1])) ex_state =
       (Inl TypeError,
        ex_state\<lparr>heap := ex_heap
          (0 := PInput (ProcessingInput_init ''s3://bucket/data'' ''/opt/ml/processing/input''
                          (Some ''input-1'')))\<rparr>)
   \<and> \<not> isinstance_ProcessingOutput (heap ex_state 0)
   \<and> normalize_outputs ex_externals (Some ([] @ 0 # [2])) ex_state = (Inl TypeError, ex_state)"
proof -
  have h1: "\<not> isinstance_ProcessingInput (heap ex_state 5)"
    by (simp add: ex_state_def ex_heap_simps isinstance_ProcessingInput_def)
  have h2: "\<not> isinstance_ProcessingOutput (heap ex_state 0)"
    by (simp add: ex_state_def ex_heap_simps isinstance_ProcessingOutput_def)
  have pre: "snd (normalize_inputs ex_externals (Some [0]) ex_state) =
      ex_state\<lparr>heap := ex_heap
          (0 := PInput (ProcessingInput_init ''s3://bucket/data'' ''/opt/ml/processing/input''
                          (Some ''input-1'')))\<rparr>"
    "snd (normalize_outputs ex_externals (Some []) ex_state) = ex_state"
    by (simp_all add: normalize_inputs_def normalize_outputs_def ex_state_def ex_heap_simps
        ex_externals_def ProcessingInput_init_def str_nat.simps Let_def)
  from normalize_stops_at_wrong_type [of ex_state 5 ex_externals "[0]" "[1]" 0 "[]" "[2]"] h1 h2 pre
  show ?thesis by simp
qed

lemma normalize_inputs_frame:
  "(\<forall>a. input_frame (heap s a) (heap (snd (normalize_inputs X ins s)) a))
   \<and> processor (snd (normalize_inputs X ins s)) = processor s
   \<and> next_addr (snd (normalize_inputs X ins s)) = next_addr s
   \<and> (\<forall>ys. fst (normalize_inputs X ins s) = Inr ys \<longrightarrow>
        ys = (case ins of None \<Rightarrow> [] | Some xs \<Rightarrow> xs))"
proof (cases ins)
  case None
  then show ?thesis by (simp add: normalize_inputs_def input_frame_refl)
next
  case (Some xs)
  have "normalize_inputs_loop X 1 xs [] s =
      (fst (normalize_inputs X ins s), snd (normalize_inputs X ins s))"
    by (simp add: Some normalize_inputs_def)
  from normalize_inputs_loop_frame [OF this] Some show ?thesis by simp
qed

lemma normalize_outputs_frame:
  "(\<forall>a. output_frame (heap s a) (heap (snd (normalize_outputs X outs s)) a))
   \<and> processor (snd (normalize_outputs X outs s)) = processor s
   \<and> next_addr (snd (normalize_outputs X outs s)) = next_addr s
   \<and> (\<forall>ys. fst (normalize_outputs X outs s) = Inr ys \<longrightarrow>
        ys = (case outs of None \<Rightarrow> [] | Some xs \<Rightarrow> xs))"
proof (cases outs)
  case None
  then show ?thesis by (simp add: normalize_outputs_def output_frame_refl)
next
  case (Some xs)
  have "normalize_outputs_loop X 1 xs [] s =
      (fst (normalize_outputs X outs s), snd (normalize_outputs X outs s))"
    by (simp add: Some normalize_outputs_def)
  from normalize_outputs_loop_frame [OF this] Some show ?thesis by simp
qed

text \<open>
  C10. The list that normalization returns holds the references it was given, in the same
  order; the objects are changed in place, an input in nothing but its name and source, an
  output in nothing but its name and destination, and no other object at all.
\<close>

theorem normalize_same_objects_frame:
  "(\<forall>a. input_frame (heap s a) (heap (snd (normalize_inputs X ins s)) a))
   \<and> (\<forall>ys. fst (normalize_inputs X ins s) = Inr ys \<longrightarrow>
        ys = (case ins of None \<Rightarrow> [] | Some xs \<Rightarrow> xs))
   \<and> (\<forall>a. output_frame (heap s a) (heap (snd (normalize_outputs X outs s)) a))
   \<and> (\<forall>ys. fst (normalize_outputs X outs s) = Inr ys \<longrightarrow>
        ys = (case outs of None \<Rightarrow> [] | Some xs \<Rightarrow> xs))"
  using normalize_inputs_frame [of s X ins] normalize_outputs_frame [of s X outs]
  by blast

theorem normalize_same_objects_frame_witness:
  "fst (normalize_inputs ex_externals (Some [1, 0]) ex_state) = Inr [1, 0]
   \<and> heap (snd (normalize_inputs ex_externals (Some [1, 0]) ex_state)) 1 =
       PInput ((ProcessingInput_init ''data/train.csv'' ''/opt/ml/processing/train'' None)
                 \<lparr>input_name := Some ''input-1'',
                  ProcessingInput.source := ''s3://bucket/job/input/input-1''\<rparr>)
   \<and> input_frame (heap ex_state 1)
         (heap (snd (normalize_inputs ex_externals (Some [1, 0]) ex_state)) 1)
   \<and> fst (normalize_outputs ex_externals (Some [2]) ex_state) = Inr [2]
   \<and> output_frame (heap ex_state 2)
         (heap (snd (normalize_outputs ex_externals (Some [2]) ex_state)) 2)"
proof -
  have h1: "fst (normalize_inputs ex_externals (Some [1, 0]) ex_state) = Inr [1, 0]"
    and h2: "heap (snd (normalize_inputs ex_externals (Some [1, 0]) ex_state)) 1 =
       PInput ((ProcessingInput_init ''data/train.csv'' ''/opt/ml/processing/train'' None)
                 \<lparr>input_name := Some ''input-1'',
                  ProcessingInput.source := ''s3://bucket/job/input/input-1''\<rparr>)"
    by (simp_all add: normalize_inputs_def ex_state_def ex_heap_simps ex_externals_def
        ex_processor_def ProcessingInput_init_def str_nat.simps os_path_join_def join_step_def
        startswith_sep_def endswith_sep_def Let_def)
  have h3: "fst (normalize_outputs ex_externals (Some [2]) ex_state) = Inr [2]"
    by (simp add: normalize_outputs_def ex_state_def ex_heap_simps ex_externals_def
        ex_processor_def ProcessingOutput_init_def Let_def)
  note frame = normalize_same_objects_frame [of ex_state ex_externals "Some [1, 0]" "Some [2]"]
  from frame have f1: "input_frame (heap ex_state 1)
      (heap (snd (normalize_inputs ex_externals (Some [1, 0]) ex_state)) 1)"
    by blast
  from frame have f2: "output_frame (heap ex_state 2)
      (heap (snd (normalize_outputs ex_externals (Some [2]) ex_state)) 2)"
    by blast
  from h1 h2 h3 f1 f2 show ?thesis by blast
qed

section \<open>Processor.run\<close>

text \<open>
  C6. \<^verbatim>\<open>Processor.run\<close> with \<^verbatim>\<open>wait=False\<close> and \<^verbatim>\<open>logs=True\<close> raises
  \<^verbatim>\<open>ValueError\<close> and leaves the whole state as it was, whatever the inputs, outputs
  and arguments: no job name is set, no descriptor is touched, nothing is uploaded and
  \<^verbatim>\<open>process\<close> is not called.
\<close>

theorem run_logs_without_wait:
  "Processor_run X ins outs args False True jname s = (Inl ValueError, s)"
  by (simp add: Processor_run_def)

theorem run_logs_without_wait_witness:
  "Processor_run ex_externals (Some [0, 1]) (Some [2]) None False True None ex_state =
     (Inl ValueError, ex_state)
   \<and> calls ex_state = [] \<and> jobs (processor ex_state) = []"
  using run_logs_without_wait [of ex_externals "Some [0, 1]" "Some [2]" None None ex_state]
  by (simp add: ex_state_def ex_processor_def)

lemma Processor_run_entrypoint:
  "entrypoint (processor (snd (Processor_run X ins outs args wait logs jname s))) =
   entrypoint (processor s)"
proof (cases "logs \<and> \<not> wait")
  case True
  then show ?thesis by (simp add: Processor_run_def)
next
  case False
  define s1 where "s1 = s\<lparr>processor := (processor s)
      \<lparr>current_job_name := Some (generate_current_job_name X (processor s) jname)\<rparr>\<rparr>"
  obtain r2 s2 where n1: "normalize_inputs X ins s1 = (r2, s2)" by force
  obtain r3 s3 where n2: "normalize_outputs X outs s2 = (r3, s3)" by force
  from normalize_inputs_frame [of s1 X ins] n1 have p2: "processor s2 = processor s1" by simp
  from normalize_outputs_frame [of s2 X outs] n2 have p3: "processor s3 = processor s2" by simp
  from p2 p3 have e3: "entrypoint (processor s3) = entrypoint (processor s)"
    "entrypoint (processor s2) = entrypoint (processor s)"
    by (simp_all add: s1_def)
  from False n1 n2 e3 show ?thesis
    by (auto simp: Processor_run_def Let_def s1_def [symmetric] ProcessingJob_start_new_def
        ProcessingJob_wait_def split: sum.splits)
qed

section \<open>Script mode\<close>

text \<open>
  C5. \<^verbatim>\<open>_get_customer_script_name\<close>, in the order of its tests: a directory without a
  script name raises \<^verbatim>\<open>ValueError\<close>; a script name given for an s3 URI or a directory
  is returned; otherwise an s3 URI or an existing file gives the base name of the code
  path; a path that is neither a file, a directory nor an s3 URI raises \<^verbatim>\<open>ValueError\<close>.
\<close>

theorem get_customer_script_name_cases:
  "(os_path_isdir X code \<and> script_name = None \<longrightarrow>
      get_customer_script_name X code script_name = Inl ValueError)
   \<and> ((urlparse_scheme X code = ''s3'' \<or> os_path_isdir X code) \<longrightarrow>
      get_customer_script_name X code (Some n) = Inr n)
   \<and> ((urlparse_scheme X code = ''s3'' \<or> os_path_isfile X code)
       \<and> \<not> (os_path_isdir X code \<and> script_name = None)
       \<and> \<not> ((urlparse_scheme X code = ''s3'' \<or> os_path_isdir X code) \<and> script_name \<noteq> None) \<longrightarrow>
      get_customer_script_name X code script_name = Inr (os_path_basename code))
   \<and> (\<not> os_path_isfile X code \<and> \<not> os_path_isdir X code \<and> urlparse_scheme X code \<noteq> ''s3'' \<longrightarrow>
      get_customer_script_name X code script_name = Inl ValueError)"
  by (auto simp: get_customer_script_name_def)

theorem get_customer_script_name_cases_witness:
  "(os_path_isdir ex_externals ''src'' \<and>
      get_customer_script_name ex_externals ''src'' None = Inl ValueError)
   \<and> get_customer_script_name ex_externals ''src'' (Some ''main.py'') = Inr ''main.py''
   \<and> (urlparse_scheme ex_externals ''s3://bucket/code/run.py'' = ''s3'' \<and>
      get_customer_script_name ex_externals ''s3://bucket/code/run.py'' (Some ''main.py'') =
        Inr ''main.py'')
   \<and> get_customer_script_name ex_externals ''s3://bucket/code/run.py'' None = Inr ''run.py''
   \<and> (os_path_isfile ex_externals ''script.py'' \<and>
      get_customer_script_name ex_externals ''script.py'' (Some ''main.py'') = Inr ''script.py'')
   \<and> (\<not> os_path_isfile ex_externals ''missing.py'' \<and> \<not> os_path_isdir ex_externals ''missing.py''
      \<and> urlparse_scheme ex_externals ''missing.py'' \<noteq> ''s3'' \<and>
      get_customer_script_name ex_externals ''missing.py'' (Some ''main.py'') = Inl ValueError)"
  using
    get_customer_script_name_cases [of ex_externals "''src''" None "''main.py''"]
    get_customer_script_name_cases [of ex_externals "''s3://bucket/code/run.py''" None "''main.py''"]
    get_customer_script_name_cases [of ex_externals "''script.py''" "Some ''main.py''" "''main.py''"]
    get_customer_script_name_cases [of ex_externals "''missing.py''" "Some ''main.py''" "''main.py''"]
  by (simp add: os_path_isdir_def os_path_isfile_def ex_externals_def os_path_basename_def)

lemma code_container_path:
  "CHR ''/'' \<notin> set n \<Longrightarrow>
   os_path_join CODE_CONTAINER_BASE_PATH [CODE_CONTAINER_INPUT_NAME, n] = ''/input/code/'' @ n"
  by (simp add: os_path_join_def join_step_def CODE_CONTAINER_BASE_PATH_def
      CODE_CONTAINER_INPUT_NAME_def not_startswith_sep)
    (simp add: startswith_sep_def endswith_sep_def)

text \<open>
  C4. For an existing local code file the entrypoint becomes the command followed by the
  path of the script in the container, \<^verbatim>\<open>/input/code/\<close> and the base name of the file,
  whatever the command; \<^verbatim>\<open>script.py\<close> with \<^verbatim>\<open>["python3"]\<close> gives
  \<^verbatim>\<open>["python3", "/input/code/script.py"]\<close>. The same entrypoint is in place after
  \<^verbatim>\<open>ScriptProcessor.run\<close> when the inputs are a list.
\<close>

theorem script_entrypoint:
  assumes "os_path_isfile X code" and "urlparse_scheme X code \<noteq> ''s3''"
  shows "get_customer_script_name X code script_name = Inr (os_path_basename code)
    \<and> entrypoint (processor (set_entrypoint command (os_path_basename code) s)) =
        Some (command @ [''/input/code/'' @ os_path_basename code])
    \<and> entrypoint (processor (snd (ScriptProcessor_run X command code script_name (Some xs)
                                     outs args wait logs jname s))) =
        Some (command @ [''/input/code/'' @ os_path_basename code])"
proof -
  from assms have nd: "\<not> os_path_isdir X code"
    by (simp add: os_path_isfile_def os_path_isdir_def)
  with assms have g: "get_customer_script_name X code script_name = Inr (os_path_basename code)"
    by (simp add: get_customer_script_name_def)
  have e: "entrypoint (processor (set_entrypoint command (os_path_basename code) s')) =
        Some (command @ [''/input/code/'' @ os_path_basename code])" for s'
    by (simp add: set_entrypoint_def code_container_path basename_no_sep)
  have "entrypoint (processor (snd (ScriptProcessor_run X command code script_name (Some xs)
                                     outs args wait logs jname s))) =
        Some (command @ [''/input/code/'' @ os_path_basename code])"
    by (simp add: ScriptProcessor_run_def g upload_code_def convert_code_and_add_to_inputs_def
        Let_def Processor_run_entrypoint e)
  with g e show ?thesis by simp
qed

theorem script_entrypoint_witness:
  "os_path_isfile ex_externals ''script.py'' \<and> urlparse_scheme ex_externals ''script.py'' \<noteq> ''s3''
   \<and> get_customer_script_name ex_externals ''script.py'' None = Inr ''script.py''
   \<and> entrypoint (processor (set_entrypoint [''python3''] ''script.py'' ex_state)) =
        Some [''python3'', ''/input/code/script.py'']
   \<and> entrypoint (processor (snd (ScriptProcessor_run ex_externals [''python3''] ''script.py'' None
                                     (Some [0]) None None True True None ex_state))) =
        Some [''python3'', ''/input/code/script.py'']"
proof -
  have h: "os_path_isfile ex_externals ''script.py''"
    "urlparse_scheme ex_externals ''script.py'' \<noteq> ''s3''"
    by (simp_all add: os_path_isfile_def ex_externals_def)
  have b: "os_path_basename ''script.py'' = ''script.py''"
    by (simp add: os_path_basename_def)
  from script_entrypoint [OF h, of None "[''python3'']" ex_state "[0]" None None True True None] h b
  show ?thesis by simp
qed

text \<open>
  C8. Adding the code input to \<^verbatim>\<open>None\<close> raises \<^verbatim>\<open>TypeError\<close>; added to a list it
  gives the list with the new descriptor at the end. So \<^verbatim>\<open>ScriptProcessor.run\<close> without
  an inputs list never succeeds: it raises \<^verbatim>\<open>TypeError\<close> as soon as the script name has
  been resolved.
\<close>

theorem script_run_without_inputs:
  "fst (convert_code_and_add_to_inputs None s3_uri s) = Inl TypeError
   \<and> fst (convert_code_and_add_to_inputs (Some xs) s3_uri s) = Inr (xs @ [next_addr s])
   \<and> heap (snd (convert_code_and_add_to_inputs (Some xs) s3_uri s)) (next_addr s) =
       PInput (ProcessingInput_init s3_uri ''/input/code'' (Some ''code''))
   \<and> fst (ScriptProcessor_run X command code script_name None outs args wait logs jname s) =
       (case get_customer_script_name X code script_name of
          Inl e \<Rightarrow> Inl e
        | Inr n \<Rightarrow> Inl TypeError)"
  by (simp add: convert_code_and_add_to_inputs_def ScriptProcessor_run_def upload_code_def
      Let_def CODE_CONTAINER_BASE_PATH_def CODE_CONTAINER_INPUT_NAME_def os_path_join_def
      join_step_def startswith_sep_def endswith_sep_def split: sum.splits)

theorem script_run_without_inputs_witness:
  "fst (ScriptProcessor_run ex_externals [''python3''] ''script.py'' None None None None
          True True None ex_state) = Inl TypeError
   \<and> fst (convert_code_and_add_to_inputs (Some [0]) ''s3://bucket/job/input/code/script.py''
            ex_state) = Inr [0, 3]"
proof -
  have g: "get_customer_script_name ex_externals ''script.py'' None = Inr ''script.py''"
    by (simp add: get_customer_script_name_def os_path_isdir_def os_path_isfile_def
        ex_externals_def os_path_basename_def)
  from script_run_without_inputs
    [of "''s3://bucket/job/input/code/script.py''" ex_state "[0]" ex_externals "[''python3'']"
        "''script.py''" None None None True True None] g
  show ?thesis by (simp add: ex_state_def)
qed

end
